theory Spec2Isabelle
  imports Complex_Main
begin

section \<open>Python values and exceptions\<close>

text \<open>
  Both stages handle loosely structured data: the collector reads the decoded JSON of
  the remote API, the analyzer reads the rows that \<^verbatim>\<open>csv.DictReader\<close> yields.
  A value is \<^verbatim>\<open>None\<close>, a bool, an int, a str, a list or a dict with string keys.
  A dict is an association list; a lookup takes the first entry of a key.
  Floats do not occur in the data the two stages read.
\<close>

datatype pyval =
    PNone
  | PBool bool
  | PInt int
  | PStr string
  | PList "pyval list"
  | PDict "(string \<times> pyval) list"

text \<open>
  The exceptions of the model are subclasses of \<^verbatim>\<open>Exception\<close>, so each of them is
  caught by an \<^verbatim>\<open>except Exception\<close> clause.
\<close>

datatype exn =
    HttpError
  | KeyError
  | TypeError
  | AttributeError
  | ValueError
  | FileNotFoundError
  | PermissionError
  | OSError
  | StopIteration
  | ZeroDivisionError

text \<open>\<^verbatim>\<open>d[k]\<close>: a missing key raises KeyError; a value that is no dict raises TypeError
  for a string key.\<close>

fun py_subscript :: "pyval \<Rightarrow> string \<Rightarrow> exn + pyval" where
  "py_subscript (PDict kvs) k =
     (case map_of kvs k of None \<Rightarrow> Inl KeyError | Some v \<Rightarrow> Inr v)"
| "py_subscript _ k = Inl TypeError"

text \<open>\<^verbatim>\<open>d.get(k, default)\<close>: only a dict has the method.\<close>

fun py_get :: "pyval \<Rightarrow> string \<Rightarrow> pyval \<Rightarrow> exn + pyval" where
  "py_get (PDict kvs) k d = Inr (case map_of kvs k of None \<Rightarrow> d | Some v \<Rightarrow> v)"
| "py_get _ k d = Inl AttributeError"

text \<open>\<^verbatim>\<open>for item in v\<close>: a list yields its elements, a str its characters, a dict its
  keys; the other values are not iterable.\<close>

fun py_iter :: "pyval \<Rightarrow> exn + pyval list" where
  "py_iter (PList xs) = Inr xs"
| "py_iter (PStr s) = Inr (map (\<lambda>c. PStr [c]) s)"
| "py_iter (PDict kvs) = Inr (map (\<lambda>kv. PStr (fst kv)) kvs)"
| "py_iter _ = Inl TypeError"

text \<open>Truth value of a Python object, as \<^verbatim>\<open>not v\<close> tests it.\<close>

fun truthy :: "pyval \<Rightarrow> bool" where
  "truthy PNone = False"
| "truthy (PBool b) = b"
| "truthy (PInt i) = (i \<noteq> 0)"
| "truthy (PStr s) = (s \<noteq> [])"
| "truthy (PList xs) = (xs \<noteq> [])"
| "truthy (PDict kvs) = (kvs \<noteq> [])"

section \<open>Stage 1: the comment collector (main.py)\<close>

text \<open>The dict that \<^verbatim>\<open>fetch_comments\<close> builds for each item; its four keys are fixed.\<close>

record comment =
  author_name :: pyval
  likes :: pyval
  reply_count :: pyval
  comment_text :: pyval

text \<open>
  The body of the \<^verbatim>\<open>for item in ...\<close> loop. The nested subscripts
  \<^verbatim>\<open>item['snippet']['topLevelComment']['snippet']\<close> raise where a level is missing;
  the four leaf fields are read with \<^verbatim>\<open>.get\<close> and a default.
\<close>

definition item_to_comment :: "pyval \<Rightarrow> exn + comment" where
  "item_to_comment item =
     (case py_subscript item ''snippet'' of
        Inl e \<Rightarrow> Inl e
      | Inr thread \<Rightarrow>
     (case py_subscript thread ''topLevelComment'' of
        Inl e \<Rightarrow> Inl e
      | Inr top_level \<Rightarrow>
     (case py_subscript top_level ''snippet'' of
        Inl e \<Rightarrow> Inl e
      | Inr snippet \<Rightarrow>
     (case py_get snippet ''authorDisplayName'' (PStr []) of
        Inl e \<Rightarrow> Inl e
      | Inr author \<Rightarrow>
     (case py_get snippet ''likeCount'' (PInt 0) of
        Inl e \<Rightarrow> Inl e
      | Inr like_count \<Rightarrow>
     (case py_get thread ''replyCount'' (PInt 0) of
        Inl e \<Rightarrow> Inl e
      | Inr replies \<Rightarrow>
     (case py_get snippet ''textDisplay'' (PStr []) of
        Inl e \<Rightarrow> Inl e
      | Inr body \<Rightarrow>
          Inr \<lparr>author_name = author, likes = like_count,
               reply_count = replies, comment_text = body\<rparr>)))))))"

text \<open>
  The \<^verbatim>\<open>for\<close> loop over one page: each comment is appended as soon as it is built, so
  the comments before a malformed item stay in the list when the exception leaves the loop.
\<close>

fun append_items :: "comment list \<Rightarrow> pyval list \<Rightarrow> comment list \<times> exn option" where
  "append_items comments [] = (comments, None)"
| "append_items comments (item # items) =
     (case item_to_comment item of
        Inl e \<Rightarrow> (comments, Some e)
      | Inr c \<Rightarrow> append_items (comments @ [c]) items)"

text \<open>
  The remote comment source is an external collaborator:
  \<^verbatim>\<open>self.youtube.commentThreads().list(videoId=..., pageToken=...).execute()\<close>.
  It is a parameter of the model, a state machine that answers a request (video id and
  page token) with a decoded response or an exception, and moves to its next state.
\<close>

type_synonym 's remote = "'s \<Rightarrow> string \<Rightarrow> pyval \<Rightarrow> (exn + pyval) \<times> 's"

text \<open>How one iteration of the \<^verbatim>\<open>while True\<close> loop ends.\<close>

datatype step = Raised exn | Break | Continue pyval

text \<open>
  One iteration: the request, the loop over the items, and the test of
  \<^verbatim>\<open>nextPageToken\<close>. The result holds the comment list as the iteration leaves it.
\<close>

definition fetch_page ::
  "'s remote \<Rightarrow> 's \<Rightarrow> string \<Rightarrow> comment list \<Rightarrow> pyval \<Rightarrow> step \<times> comment list \<times> 's" where
  "fetch_page remote s video_id comments page_token =
     (case remote s video_id page_token of
        (Inl e, s') \<Rightarrow> (Raised e, comments, s')
      | (Inr response, s') \<Rightarrow>
     (case py_get response ''items'' (PList []) of
        Inl e \<Rightarrow> (Raised e, comments, s')
      | Inr its \<Rightarrow>
     (case py_iter its of
        Inl e \<Rightarrow> (Raised e, comments, s')
      | Inr items \<Rightarrow>
     (case append_items comments items of
        (comments', Some e) \<Rightarrow> (Raised e, comments', s')
      | (comments', None) \<Rightarrow>
     (case py_get response ''nextPageToken'' PNone of
        Inl e \<Rightarrow> (Raised e, comments', s')
      | Inr tok \<Rightarrow>
          if \<not> truthy tok then (Break, comments', s')
          else (Continue tok, comments', s'))))))"

text \<open>
  What a run of \<^verbatim>\<open>fetch_comments\<close> did: the list it returns, the value of
  \<^verbatim>\<open>page_count\<close> (one per request), and the exception that the
  \<^verbatim>\<open>except Exception\<close> clause caught, if any.
\<close>

record fetch_outcome =
  fetched :: "comment list"
  page_count :: nat
  raised :: "exn option"

text \<open>
  The \<^verbatim>\<open>while True\<close> loop. Nothing bounds the number of pages, so the loop need not
  end: the result is an option, and \<open>None\<close> is a run that never returns.
\<close>

partial_function (option) fetch_loop ::
  "'s remote \<Rightarrow> 's \<Rightarrow> string \<Rightarrow> comment list \<Rightarrow> pyval \<Rightarrow> nat \<Rightarrow> (fetch_outcome \<times> 's) option" where
  "fetch_loop remote s video_id comments page_token n =
     (case fetch_page remote s video_id comments page_token of
        (Raised e, comments', s') \<Rightarrow>
          Some (\<lparr>fetched = comments', page_count = n + 1, raised = Some e\<rparr>, s')
      | (Break, comments', s') \<Rightarrow>
          Some (\<lparr>fetched = comments', page_count = n + 1, raised = None\<rparr>, s')
      | (Continue tok, comments', s') \<Rightarrow>
          fetch_loop remote s' video_id comments' tok (n + 1))"

definition fetch_run :: "'s remote \<Rightarrow> 's \<Rightarrow> string \<Rightarrow> (fetch_outcome \<times> 's) option" where
  "fetch_run remote s video_id = fetch_loop remote s video_id [] PNone 0"

text \<open>
  What the caller of \<^verbatim>\<open>fetch_comments\<close> receives: the list alone. Both
  \<^verbatim>\<open>return comments\<close> statements, the one after the loop and the one in the
  exception handler, return the same variable.
\<close>

definition fetch_comments :: "'s remote \<Rightarrow> 's \<Rightarrow> string \<Rightarrow> comment list option" where
  "fetch_comments remote s video_id =
     map_option (\<lambda>r. fetched (fst r)) (fetch_run remote s video_id)"

text \<open>
  \<^verbatim>\<open>YouTubeCommentScraper.export_to_csv\<close>. The tabular store is an external collaborator:
  \<open>store_write file fieldnames rows w\<close> stands for opening the file and writing the
  header and the rows in the world \<open>w\<close>; it gives the new world, or the exception that
  \<^verbatim>\<open>open\<close> or the writer raised. The handler logs the exception and raises it again.
\<close>

definition OUTPUT_CSV :: string where
  "OUTPUT_CSV = ''pop_the_balloon_comments.csv''"

definition scraper_export_to_csv ::
  "(string \<Rightarrow> string list \<Rightarrow> comment list \<Rightarrow> 'w \<Rightarrow> exn + 'w) \<Rightarrow> 'w \<Rightarrow> comment list \<Rightarrow> string
     \<Rightarrow> exn + 'w" where
  "scraper_export_to_csv store_write w comments output_file =
     (if comments = [] then Inr w
      else
        (case store_write output_file
                [''author_name'', ''likes'', ''reply_count'', ''comment_text''] comments w of
           Inl e \<Rightarrow> Inl e
         | Inr w' \<Rightarrow> Inr w'))"

subsection \<open>A simulated paginated source\<close>

text \<open>
  A scripted source, as a test double of the remote API: it answers the k-th request with
  the k-th entry of its script, whatever the request says, and records the page token
  of each request it receives. A request past the end of the script raises.
\<close>

record sim_source =
  pending :: "(exn + pyval) list"
  received :: "pyval list"

definition sim_remote :: "sim_source remote" where
  "sim_remote s video_id page_token =
     (case pending s of
        [] \<Rightarrow> (Inl StopIteration, s\<lparr>received := received s @ [page_token]\<rparr>)
      | r # rs \<Rightarrow> (r, \<lparr>pending = rs, received = received s @ [page_token]\<rparr>))"

text \<open>A response with a batch of items, and with a \<^verbatim>\<open>nextPageToken\<close> entry or without.\<close>

definition page_response :: "pyval list \<Rightarrow> pyval option \<Rightarrow> exn + pyval" where
  "page_response items cursor =
     Inr (PDict ((''items'', PList items) #
                 (case cursor of None \<Rightarrow> [] | Some c \<Rightarrow> [(''nextPageToken'', c)])))"

text \<open>The script of a list of batches that all carry a cursor.\<close>

definition served_pages :: "(pyval list \<times> pyval) list \<Rightarrow> (exn + pyval) list" where
  "served_pages ps = map (\<lambda>p. page_response (fst p) (Some (snd p))) ps"

text \<open>A cursor that makes the loop go on: present and true as a Python object.\<close>

definition carries_cursor :: "pyval option \<Rightarrow> bool" where
  "carries_cursor cursor = (case cursor of None \<Rightarrow> False | Some c \<Rightarrow> truthy c)"

text \<open>An item that the per-item mapping accepts.\<close>

definition well_formed_item :: "pyval \<Rightarrow> bool" where
  "well_formed_item item = (\<not> isl (item_to_comment item))"

definition good_page :: "pyval list \<times> pyval \<Rightarrow> bool" where
  "good_page p = (list_all well_formed_item (fst p) \<and> truthy (snd p))"

text \<open>
  An answer of the source that fails with \<open>e\<close> before any of its items is read: the
  request raises \<open>e\<close>, or the response is no dict (\<^verbatim>\<open>response.get\<close> raises), or what
  it holds as its items cannot be iterated.
\<close>

definition fails_before_items :: "exn + pyval \<Rightarrow> exn \<Rightarrow> bool" where
  "fails_before_items answer e =
     (case answer of
        Inl e' \<Rightarrow> e' = e
      | Inr response \<Rightarrow>
          (case py_get response ''items'' (PList []) of
             Inl e' \<Rightarrow> e' = e
           | Inr its \<Rightarrow> py_iter its = Inl e))"

text \<open>The comments that the loop over a batch of items appends to an empty list.\<close>

definition comments_of :: "pyval list \<Rightarrow> comment list" where
  "comments_of items = fst (append_items [] items)"

text \<open>A comment thread as the API returns it with \<^verbatim>\<open>part='snippet'\<close>.\<close>

definition thread_item :: "string \<Rightarrow> int \<Rightarrow> int \<Rightarrow> string \<Rightarrow> pyval" where
  "thread_item author n_likes n_replies body =
     PDict [(''snippet'', PDict
       [(''topLevelComment'', PDict
          [(''snippet'', PDict
             [(''authorDisplayName'', PStr author),
              (''likeCount'', PInt n_likes),
              (''textDisplay'', PStr body)])]),
        (''replyCount'', PInt n_replies)])]"

section \<open>Stage 2: the sentiment analyzer (sentiment\_analysis.py)\<close>

text \<open>
  Scores are Python floats in the source. The model takes them as real numbers: the
  thresholds are the reals \<open>0.05\<close> and \<open>-0.05\<close>, and division is exact. The builtin
  \<^verbatim>\<open>round(x, ndigits)\<close> works on the binary float and is not modelled: it is a
  parameter \<open>rnd\<close> of the functions that call it.
\<close>

definition INPUT_CSV :: string where
  "INPUT_CSV = ''pop_the_balloon_comments.csv''"

definition SENTIMENT_OUTPUT_CSV :: string where
  "SENTIMENT_OUTPUT_CSV = ''pop_the_balloon_sentiment_analysis.csv''"

definition POSITIVE_THRESHOLD :: real where
  "POSITIVE_THRESHOLD = 0.05"

definition NEGATIVE_THRESHOLD :: real where
  "NEGATIVE_THRESHOLD = - 0.05"

definition classify_sentiment :: "real \<Rightarrow> string" where
  "classify_sentiment compound_score =
     (if compound_score > POSITIVE_THRESHOLD then ''Positive''
      else if compound_score < NEGATIVE_THRESHOLD then ''Negative''
      else ''Neutral'')"

text \<open>The dict that \<^verbatim>\<open>polarity_scores\<close> returns.\<close>

record scores =
  pos :: real
  neg :: real
  neu :: real
  compound :: real

text \<open>
  The scorer (\<^verbatim>\<open>SentimentIntensityAnalyzer.polarity_scores\<close>) is an external library and
  a parameter of the model. It is applied to whatever the row holds as its text, and it may
  raise.
\<close>

type_synonym scorer = "pyval \<Rightarrow> exn + scores"

text \<open>A row of \<^verbatim>\<open>csv.DictReader\<close>: a dict from the header's names to the cells.\<close>

type_synonym row = "(string \<times> pyval) list"

definition dict_get :: "row \<Rightarrow> string \<Rightarrow> pyval \<Rightarrow> pyval" where
  "dict_get d k dflt = (case map_of d k of None \<Rightarrow> dflt | Some v \<Rightarrow> v)"

text \<open>The dict \<^verbatim>\<open>analyzed\<close>: the four fields of the comment and five new ones.\<close>

record analyzed = comment +
  positive_score :: real
  negative_score :: real
  neutral_score :: real
  compound_score :: real
  sentiment :: string

record analyzer =
  comments :: "row list"
  analyzed_comments :: "analyzed list"

text \<open>The body of the loop of \<^verbatim>\<open>analyze_comments\<close>.\<close>

definition analyze_one :: "scorer \<Rightarrow> (real \<Rightarrow> nat \<Rightarrow> real) \<Rightarrow> row \<Rightarrow> exn + analyzed" where
  "analyze_one sia rnd c =
     (let text_of_c = dict_get c ''comment_text'' (PStr []) in
      case sia text_of_c of
        Inl e \<Rightarrow> Inl e
      | Inr sc \<Rightarrow>
          Inr \<lparr>author_name = dict_get c ''author_name'' (PStr []),
               likes = dict_get c ''likes'' (PInt 0),
               reply_count = dict_get c ''reply_count'' (PInt 0),
               comment_text = text_of_c,
               positive_score = rnd (pos sc) 4,
               negative_score = rnd (neg sc) 4,
               neutral_score = rnd (neu sc) 4,
               compound_score = rnd (compound sc) 4,
               sentiment = classify_sentiment (compound sc)\<rparr>)"

fun analyze_loop ::
  "scorer \<Rightarrow> (real \<Rightarrow> nat \<Rightarrow> real) \<Rightarrow> row list \<Rightarrow> analyzed list \<Rightarrow> exn + analyzed list" where
  "analyze_loop sia rnd [] acc = Inr acc"
| "analyze_loop sia rnd (c # cs) acc =
     (case analyze_one sia rnd c of
        Inl e \<Rightarrow> Inl e
      | Inr a \<Rightarrow> analyze_loop sia rnd cs (acc @ [a]))"

text \<open>
  \<^verbatim>\<open>analyze_comments\<close> appends to \<^verbatim>\<open>self.analyzed_comments\<close>. It has no handler: an
  exception of the scorer leaves the method and, through \<^verbatim>\<open>run\<close>, the program.
\<close>

definition analyze_comments ::
  "scorer \<Rightarrow> (real \<Rightarrow> nat \<Rightarrow> real) \<Rightarrow> analyzer \<Rightarrow> exn + analyzer" where
  "analyze_comments sia rnd st =
     (case analyze_loop sia rnd (comments st) (analyzed_comments st) of
        Inl e \<Rightarrow> Inl e
      | Inr acc \<Rightarrow> Inr (st\<lparr>analyzed_comments := acc\<rparr>))"

text \<open>
  \<^verbatim>\<open>load_comments\<close>: \<open>store_read file w\<close> stands for opening and parsing the file in
  the world \<open>w\<close>. Every exception gives \<^verbatim>\<open>False\<close> and leaves \<^verbatim>\<open>self.comments\<close> as it was.
\<close>

definition load_comments ::
  "(string \<Rightarrow> 'w \<Rightarrow> exn + row list) \<Rightarrow> 'w \<Rightarrow> analyzer \<Rightarrow> string \<Rightarrow> bool \<times> analyzer" where
  "load_comments store_read w st input_file =
     (case store_read input_file w of
        Inl e \<Rightarrow> (False, st)
      | Inr rows \<Rightarrow> (True, st\<lparr>comments := rows\<rparr>))"

definition analyzer_export_to_csv ::
  "(string \<Rightarrow> string list \<Rightarrow> analyzed list \<Rightarrow> 'w \<Rightarrow> exn + 'w) \<Rightarrow> 'w \<Rightarrow> analyzer \<Rightarrow> string
     \<Rightarrow> exn + 'w" where
  "analyzer_export_to_csv store_write w st output_file =
     (if analyzed_comments st = [] then Inr w
      else
        (case store_write output_file
                [''author_name'', ''sentiment'', ''compound_score'', ''positive_score'',
                 ''negative_score'', ''neutral_score'', ''likes'', ''reply_count'',
                 ''comment_text'']
                (analyzed_comments st) w of
           Inl e \<Rightarrow> Inl e
         | Inr w' \<Rightarrow> Inr w'))"

text \<open>
  \<^verbatim>\<open>int(v)\<close>. What \<^verbatim>\<open>int\<close> makes of a str is the builtin's business and a parameter:
  \<open>int_str s\<close> is the number, or \<open>None\<close> where the builtin raises ValueError.
\<close>

fun py_int :: "(string \<Rightarrow> int option) \<Rightarrow> pyval \<Rightarrow> exn + int" where
  "py_int int_str (PInt i) = Inr i"
| "py_int int_str (PBool b) = Inr (if b then 1 else 0)"
| "py_int int_str (PStr s) = (case int_str s of None \<Rightarrow> Inl ValueError | Some i \<Rightarrow> Inr i)"
| "py_int int_str _ = Inl TypeError"

text \<open>The three dicts of \<^verbatim>\<open>print_summary\<close>, keyed by the sentiment.\<close>

type_synonym tallies = "(string \<rightharpoonup> int) \<times> (string \<rightharpoonup> int) \<times> (string \<rightharpoonup> int)"

definition initial_tallies :: tallies where
  "initial_tallies =
     ([''Positive'' \<mapsto> 0, ''Negative'' \<mapsto> 0, ''Neutral'' \<mapsto> 0],
      [''Positive'' \<mapsto> 0, ''Negative'' \<mapsto> 0, ''Neutral'' \<mapsto> 0],
      [''Positive'' \<mapsto> 0, ''Negative'' \<mapsto> 0, ''Neutral'' \<mapsto> 0])"

text \<open>\<^verbatim>\<open>d[k] += v\<close>: the old entry is read first, so a missing key raises KeyError.\<close>

definition dict_add :: "(string \<rightharpoonup> int) \<Rightarrow> string \<Rightarrow> int \<Rightarrow> exn + (string \<rightharpoonup> int)" where
  "dict_add d k v = (case d k of None \<Rightarrow> Inl KeyError | Some old \<Rightarrow> Inr (d(k \<mapsto> old + v)))"

fun tally_loop :: "(string \<Rightarrow> int option) \<Rightarrow> analyzed list \<Rightarrow> tallies \<Rightarrow> exn + tallies" where
  "tally_loop int_str [] t = Inr t"
| "tally_loop int_str (c # cs) (sentiment_counts, sentiment_likes, sentiment_replies) =
     (case dict_add sentiment_counts (sentiment c) 1 of
        Inl e \<Rightarrow> Inl e
      | Inr counts' \<Rightarrow>
     (case sentiment_likes (sentiment c) of
        None \<Rightarrow> Inl KeyError
      | Some old_likes \<Rightarrow>
     (case py_int int_str (likes c) of
        Inl e \<Rightarrow> Inl e
      | Inr l \<Rightarrow>
     (case sentiment_replies (sentiment c) of
        None \<Rightarrow> Inl KeyError
      | Some old_replies \<Rightarrow>
     (case py_int int_str (reply_count c) of
        Inl e \<Rightarrow> Inl e
      | Inr r \<Rightarrow>
          tally_loop int_str cs
            (counts', sentiment_likes(sentiment c \<mapsto> old_likes + l),
             sentiment_replies(sentiment c \<mapsto> old_replies + r)))))))"

text \<open>\<^verbatim>\<open>sum(int(c[...]) for c in self.analyzed_comments)\<close>.\<close>

fun sum_ints :: "(string \<Rightarrow> int option) \<Rightarrow> pyval list \<Rightarrow> exn + int" where
  "sum_ints int_str [] = Inr 0"
| "sum_ints int_str (v # vs) =
     (case py_int int_str v of
        Inl e \<Rightarrow> Inl e
      | Inr i \<Rightarrow> (case sum_ints int_str vs of Inl e \<Rightarrow> Inl e | Inr rest_sum \<Rightarrow> Inr (i + rest_sum)))"

text \<open>One line of the distribution table, with the values before they are formatted.\<close>

record category_row =
  label :: string
  count :: int
  percentage :: real
  avg_likes :: real
  avg_replies :: real

text \<open>\<^verbatim>\<open>a / b\<close> on numbers: a zero divisor raises.\<close>

definition py_truediv :: "real \<Rightarrow> real \<Rightarrow> exn + real" where
  "py_truediv a b = (if b = 0 then Inl ZeroDivisionError else Inr (a / b))"

text \<open>The body of the loop over the three sentiments.\<close>

definition category_line :: "tallies \<Rightarrow> int \<Rightarrow> string \<Rightarrow> exn + category_row" where
  "category_line t n_total s =
     (case t of (sentiment_counts, sentiment_likes, sentiment_replies) \<Rightarrow>
     (case sentiment_counts s of
        None \<Rightarrow> Inl KeyError
      | Some n \<Rightarrow>
     (case (if n_total > 0
            then (case py_truediv (of_int n) (of_int n_total) of
                    Inl e \<Rightarrow> Inl e
                  | Inr q \<Rightarrow> Inr (q * 100))
            else Inr 0) of
        Inl e \<Rightarrow> Inl e
      | Inr pct \<Rightarrow>
     (case (if n > 0
            then (case sentiment_likes s of
                    None \<Rightarrow> Inl KeyError
                  | Some l \<Rightarrow> py_truediv (of_int l) (of_int n))
            else Inr 0) of
        Inl e \<Rightarrow> Inl e
      | Inr al \<Rightarrow>
     (case (if n > 0
            then (case sentiment_replies s of
                    None \<Rightarrow> Inl KeyError
                  | Some r \<Rightarrow> py_truediv (of_int r) (of_int n))
            else Inr 0) of
        Inl e \<Rightarrow> Inl e
      | Inr ar \<Rightarrow>
          Inr \<lparr>label = s, count = n, percentage = pct,
               avg_likes = al, avg_replies = ar\<rparr>)))))"

fun category_lines :: "tallies \<Rightarrow> int \<Rightarrow> string list \<Rightarrow> exn + category_row list" where
  "category_lines t n_total [] = Inr []"
| "category_lines t n_total (s # ss) =
     (case category_line t n_total s of
        Inl e \<Rightarrow> Inl e
      | Inr line \<Rightarrow>
          (case category_lines t n_total ss of
             Inl e \<Rightarrow> Inl e
           | Inr lines \<Rightarrow> Inr (line # lines)))"

text \<open>What \<^verbatim>\<open>print_summary\<close> logs, with the values before they are formatted.\<close>

record summary =
  total_comments :: int
  total_likes :: int
  total_replies :: int
  avg_compound :: real
  distribution :: "category_row list"

text \<open>
  \<^verbatim>\<open>SentimentAnalyzer.print_summary\<close>. The result is \<open>Inr None\<close> where the method logs
  ``No comments to summarize'' and returns, \<open>Inr (Some s)\<close> where it logs the summary
  \<open>s\<close>, and \<open>Inl e\<close> where it raises.
\<close>

definition analyzer_print_summary ::
  "(string \<Rightarrow> int option) \<Rightarrow> analyzer \<Rightarrow> exn + summary option" where
  "analyzer_print_summary int_str st =
     (if analyzed_comments st = [] then Inr None
      else
     (case tally_loop int_str (analyzed_comments st) initial_tallies of
        Inl e \<Rightarrow> Inl e
      | Inr t \<Rightarrow>
     (case sum_ints int_str (map likes (analyzed_comments st)) of
        Inl e \<Rightarrow> Inl e
      | Inr sum_likes \<Rightarrow>
     (case sum_ints int_str (map reply_count (analyzed_comments st)) of
        Inl e \<Rightarrow> Inl e
      | Inr sum_replies \<Rightarrow>
     (case py_truediv (sum_list (map compound_score (analyzed_comments st)))
             (of_int (int (length (analyzed_comments st)))) of
        Inl e \<Rightarrow> Inl e
      | Inr mean_compound \<Rightarrow>
     (case category_lines t (int (length (analyzed_comments st)))
             [''Positive'', ''Negative'', ''Neutral''] of
        Inl e \<Rightarrow> Inl e
      | Inr lines \<Rightarrow>
          Inr (Some \<lparr>total_comments = int (length (analyzed_comments st)),
                     total_likes = sum_likes,
                     total_replies = sum_replies,
                     avg_compound = mean_compound,
                     distribution = lines\<rparr>)))))))"

text \<open>
  \<^verbatim>\<open>SentimentAnalyzer.run\<close>: the final state, the final world and what the summary
  logged; \<open>Inl e\<close> where an exception leaves the method.
\<close>

definition analyzer_run ::
  "(string \<Rightarrow> 'w \<Rightarrow> exn + row list) \<Rightarrow>
   (string \<Rightarrow> string list \<Rightarrow> analyzed list \<Rightarrow> 'w \<Rightarrow> exn + 'w) \<Rightarrow>
   scorer \<Rightarrow> (real \<Rightarrow> nat \<Rightarrow> real) \<Rightarrow> (string \<Rightarrow> int option) \<Rightarrow> 'w \<Rightarrow> analyzer
     \<Rightarrow> exn + (analyzer \<times> 'w \<times> summary option)" where
  "analyzer_run store_read store_write sia rnd int_str w st =
     (case load_comments store_read w st INPUT_CSV of
        (False, st') \<Rightarrow> Inr (st', w, None)
      | (True, st1) \<Rightarrow>
     (case analyze_comments sia rnd st1 of
        Inl e \<Rightarrow> Inl e
      | Inr st2 \<Rightarrow>
     (case analyzer_export_to_csv store_write w st2 SENTIMENT_OUTPUT_CSV of
        Inl e \<Rightarrow> Inl e
      | Inr w' \<Rightarrow>
     (case analyzer_print_summary int_str st2 of
        Inl e \<Rightarrow> Inl e
      | Inr sm \<Rightarrow> Inr (st2, w', sm)))))"

subsection \<open>Notions used to state the properties of the analyzer\<close>

text \<open>A dict of \<^verbatim>\<open>print_summary\<close> that has the three sentiments as keys.\<close>

definition has_keys :: "(string \<rightharpoonup> int) \<Rightarrow> bool" where
  "has_keys d = (d ''Positive'' \<noteq> None \<and> d ''Negative'' \<noteq> None \<and> d ''Neutral'' \<noteq> None)"

text \<open>
  A scored comment that \<^verbatim>\<open>print_summary\<close> can read: its label is one of the three
  sentiments, and \<^verbatim>\<open>int\<close> accepts its likes and its reply count.
\<close>

definition scored_ok :: "(string \<Rightarrow> int option) \<Rightarrow> analyzed \<Rightarrow> bool" where
  "scored_ok int_str a =
     ((sentiment a = ''Positive'' \<or> sentiment a = ''Negative'' \<or> sentiment a = ''Neutral'')
      \<and> \<not> isl (py_int int_str (likes a))
      \<and> \<not> isl (py_int int_str (reply_count a)))"

text \<open>The text that \<^verbatim>\<open>analyze_comments\<close> hands to the scorer for a row.\<close>

definition text_of :: "row \<Rightarrow> pyval" where
  "text_of c = dict_get c ''comment_text'' (PStr [])"

text \<open>
  A scorer for examples: a table with the scores of two texts; every other text is
  neutral, and a value that is no str raises.
\<close>

definition example_scorer :: scorer where
  "example_scorer t =
     (case t of
        PStr s \<Rightarrow>
          if s = ''I love this!''
          then Inr \<lparr>pos = 0.808, neg = 0, neu = 0.192, compound = 0.6696\<rparr>
          else if s = ''This is terrible.''
          then Inr \<lparr>pos = 0, neg = 0.608, neu = 0.392, compound = - 0.4767\<rparr>
          else Inr \<lparr>pos = 0, neg = 0, neu = 1, compound = 0\<rparr>
      | _ \<Rightarrow> Inl TypeError)"

text \<open>
  Rounding for the examples. The scores in the table of the example scorer have at most
  four decimals, and \<^verbatim>\<open>round(x, 4)\<close> returns such a score as it is.
\<close>

definition example_round :: "real \<Rightarrow> nat \<Rightarrow> real" where
  "example_round x ndigits = x"

text \<open>Two rows as \<^verbatim>\<open>csv.DictReader\<close> yields them: every cell is a str.\<close>

definition example_rows :: "row list" where
  "example_rows =
     [[(''author_name'', PStr ''Ana''), (''likes'', PStr ''10''), (''reply_count'', PStr ''0''),
       (''comment_text'', PStr ''I love this!'')],
      [(''author_name'', PStr ''Ben''), (''likes'', PStr ''2''), (''reply_count'', PStr ''1''),
       (''comment_text'', PStr ''This is terrible.'')]]"

text \<open>What \<^verbatim>\<open>analyze_comments\<close> makes of the two rows with the example scorer.\<close>

definition example_analyzed :: "analyzed list" where
  "example_analyzed =
     [\<lparr>author_name = PStr ''Ana'', likes = PStr ''10'', reply_count = PStr ''0'',
       comment_text = PStr ''I love this!'',
       positive_score = 0.808, negative_score = 0, neutral_score = 0.192,
       compound_score = 0.6696, sentiment = ''Positive''\<rparr>,
      \<lparr>author_name = PStr ''Ben'', likes = PStr ''2'', reply_count = PStr ''1'',
       comment_text = PStr ''This is terrible.'',
       positive_score = 0, negative_score = 0.608, neutral_score = 0.392,
       compound_score = - 0.4767, sentiment = ''Negative''\<rparr>]"

text \<open>\<^verbatim>\<open>int\<close> on the strings of the examples, as a table.\<close>

definition example_int_str :: "string \<Rightarrow> int option" where
  "example_int_str = map_of [(''0'', 0), (''1'', 1), (''2'', 2), (''10'', 10)]"

text \<open>
  A tabular store for examples: the world is the list of the names of the files that
  exist. Reading the input file gives the two example rows where the file exists, and
  writing a file adds its name.
\<close>

definition example_read :: "string \<Rightarrow> string list \<Rightarrow> exn + row list" where
  "example_read file w = (if file \<in> set w then Inr example_rows else Inl FileNotFoundError)"

definition example_write ::
  "string \<Rightarrow> string list \<Rightarrow> analyzed list \<Rightarrow> string list \<Rightarrow> exn + string list" where
  "example_write file fieldnames rows w = Inr (file # w)"

section \<open>Properties of the collector\<close>

subsection \<open>The loop over the items of a page\<close>

lemma append_items_acc:
  "append_items acc items = (acc @ fst (append_items [] items), snd (append_items [] items))"
proof (induction items arbitrary: acc)
  case Nil
  show ?case by simp
next
  case (Cons item items)
  show ?case
  proof (cases "item_to_comment item")
    case (Inl e)
    then show ?thesis by simp
  next
    case (Inr c)
    have "append_items (acc @ [c]) items
        = ((acc @ [c]) @ fst (append_items [] items), snd (append_items [] items))"
      by (rule Cons.IH)
    moreover have "append_items [c] items
        = ([c] @ fst (append_items [] items), snd (append_items [] items))"
      by (rule Cons.IH)
    ultimately show ?thesis using Inr by simp
  qed
qed

lemma well_formed_item_Inr:
  assumes "well_formed_item item"
  obtains c where "item_to_comment item = Inr c"
  using assms by (cases "item_to_comment item") (auto simp: well_formed_item_def)

lemma append_items_well_formed:
  "list_all well_formed_item items \<Longrightarrow> snd (append_items [] items) = None"
proof (induction items)
  case Nil
  show ?case by simp
next
  case (Cons item items)
  then obtain c where c: "item_to_comment item = Inr c"
    by (auto elim: well_formed_item_Inr)
  have "append_items [c] items = ([c] @ fst (append_items [] items), snd (append_items [] items))"
    by (rule append_items_acc)
  with Cons c show ?case by simp
qed

lemma comments_of_Cons:
  "item_to_comment item = Inr c \<Longrightarrow> comments_of (item # items) = c # comments_of items"
  using append_items_acc [of "[c]" items] by (simp add: comments_of_def)

lemma comments_of_map:
  "list_all well_formed_item items \<Longrightarrow> map Inr (comments_of items) = map item_to_comment items"
proof (induction items)
  case Nil
  show ?case by (simp add: comments_of_def)
next
  case (Cons item items)
  then obtain c where c: "item_to_comment item = Inr c"
    by (auto elim: well_formed_item_Inr)
  with Cons show ?case by (simp add: comments_of_Cons)
qed

lemma comments_of_append:
  "list_all well_formed_item xs \<Longrightarrow> comments_of (xs @ ys) = comments_of xs @ comments_of ys"
proof (induction xs)
  case Nil
  show ?case by (simp add: comments_of_def)
next
  case (Cons item xs)
  then obtain c where c: "item_to_comment item = Inr c"
    by (auto elim: well_formed_item_Inr)
  with Cons show ?case by (simp add: comments_of_Cons)
qed

lemma append_items_good:
  "list_all well_formed_item items \<Longrightarrow> append_items acc items = (acc @ comments_of items, None)"
  using append_items_acc [of acc items] append_items_well_formed [of items]
  by (simp add: comments_of_def)

text \<open>A malformed item ends the loop; the comments of the items before it are kept.\<close>

lemma append_items_bad:
  assumes "list_all well_formed_item items" and "item_to_comment bad = Inl e"
  shows "append_items acc (items @ bad # later) = (acc @ comments_of items, Some e)"
  using assms(1)
proof (induction items arbitrary: acc)
  case Nil
  show ?case using assms(2) by (simp add: comments_of_def)
next
  case (Cons item items)
  then obtain c where c: "item_to_comment item = Inr c"
    by (auto elim: well_formed_item_Inr)
  from Cons.prems have "list_all well_formed_item items" by simp
  then have "append_items (acc @ [c]) (items @ bad # later)
      = ((acc @ [c]) @ comments_of items, Some e)"
    by (rule Cons.IH)
  with c show ?case by (simp add: comments_of_Cons)
qed

lemma thread_item_comment:
  "item_to_comment (thread_item author n_likes n_replies body)
     = Inr \<lparr>author_name = PStr author, likes = PInt n_likes,
            reply_count = PInt n_replies, comment_text = PStr body\<rparr>"
  by (simp add: item_to_comment_def thread_item_def)

lemma thread_item_well_formed: "well_formed_item (thread_item author n_likes n_replies body)"
  by (simp add: well_formed_item_def thread_item_comment)

subsection \<open>One request against the simulated source\<close>

lemma fetch_page_sim_continue:
  assumes "list_all well_formed_item items" and "truthy c"
  shows "fetch_page sim_remote \<lparr>pending = page_response items (Some c) # rest, received = seen\<rparr>
           v acc tok
         = (Continue c, acc @ comments_of items, \<lparr>pending = rest, received = seen @ [tok]\<rparr>)"
  using assms
  by (simp add: fetch_page_def sim_remote_def page_response_def append_items_good)

lemma fetch_page_sim_break:
  assumes "list_all well_formed_item items" and "\<not> carries_cursor cursor"
  shows "fetch_page sim_remote \<lparr>pending = page_response items cursor # rest, received = seen\<rparr>
           v acc tok
         = (Break, acc @ comments_of items, \<lparr>pending = rest, received = seen @ [tok]\<rparr>)"
  using assms
  by (cases cursor)
     (simp_all add: fetch_page_def sim_remote_def page_response_def append_items_good
        carries_cursor_def)

lemma fetch_page_sim_raise:
  "fetch_page sim_remote \<lparr>pending = Inl e # rest, received = seen\<rparr> v acc tok
     = (Raised e, acc, \<lparr>pending = rest, received = seen @ [tok]\<rparr>)"
  by (simp add: fetch_page_def sim_remote_def)

lemma fetch_page_sim_bad_item:
  assumes "list_all well_formed_item items" and "item_to_comment bad = Inl e"
  shows "fetch_page sim_remote
           \<lparr>pending = page_response (items @ bad # later) cursor # rest, received = seen\<rparr>
           v acc tok
         = (Raised e, acc @ comments_of items, \<lparr>pending = rest, received = seen @ [tok]\<rparr>)"
  by (simp add: fetch_page_def sim_remote_def page_response_def append_items_bad [OF assms])

lemma fetch_page_sim_fails_before:
  assumes "fails_before_items answer e"
  shows "fetch_page sim_remote \<lparr>pending = answer # rest, received = seen\<rparr> v acc tok
         = (Raised e, acc, \<lparr>pending = rest, received = seen @ [tok]\<rparr>)"
  using assms
  by (auto simp: fails_before_items_def fetch_page_def sim_remote_def split: sum.splits)

lemma fetch_page_sim_fails_at_item:
  assumes "py_get response ''items'' (PList []) = Inr its"
    and "py_iter its = Inr (items @ bad # later)"
    and "list_all well_formed_item items" and "item_to_comment bad = Inl e"
  shows "fetch_page sim_remote \<lparr>pending = Inr response # rest, received = seen\<rparr> v acc tok
         = (Raised e, acc @ comments_of items, \<lparr>pending = rest, received = seen @ [tok]\<rparr>)"
  by (simp add: fetch_page_def sim_remote_def assms(1,2) append_items_bad [OF assms(3,4)])

subsection \<open>The pagination loop against the simulated source\<close>

lemma fetch_loop_pages:
  assumes "list_all good_page ps"
  shows "fetch_loop sim_remote \<lparr>pending = served_pages ps @ rest, received = seen\<rparr> v acc tok n
       = fetch_loop sim_remote
           \<lparr>pending = rest, received = seen @ butlast (tok # map snd ps)\<rparr> v
           (acc @ comments_of (concat (map fst ps))) (last (tok # map snd ps)) (n + length ps)"
  using assms
proof (induction ps arbitrary: seen acc tok n)
  case Nil
  show ?case by (simp add: served_pages_def comments_of_def)
next
  case (Cons p ps)
  from Cons.prems have p: "good_page p" and rest: "list_all good_page ps"
    by simp_all
  from p have wf: "list_all well_formed_item (fst p)" and tr: "truthy (snd p)"
    by (simp_all add: good_page_def)
  have "fetch_loop sim_remote \<lparr>pending = served_pages (p # ps) @ rest, received = seen\<rparr> v acc tok n
      = fetch_loop sim_remote \<lparr>pending = served_pages ps @ rest, received = seen @ [tok]\<rparr> v
          (acc @ comments_of (fst p)) (snd p) (n + 1)"
    by (subst fetch_loop.simps)
       (simp add: served_pages_def fetch_page_sim_continue [OF wf tr])
  also have "\<dots> = fetch_loop sim_remote
      \<lparr>pending = rest, received = (seen @ [tok]) @ butlast (snd p # map snd ps)\<rparr> v
      ((acc @ comments_of (fst p)) @ comments_of (concat (map fst ps)))
      (last (snd p # map snd ps)) ((n + 1) + length ps)"
    by (rule Cons.IH [OF rest])
  finally show ?case using wf by (simp add: comments_of_append)
qed

lemma fetch_loop_break:
  assumes "list_all well_formed_item items" and "\<not> carries_cursor cursor"
  shows "fetch_loop sim_remote \<lparr>pending = page_response items cursor # rest, received = seen\<rparr>
           v acc tok n
       = Some (\<lparr>fetched = acc @ comments_of items, page_count = n + 1, raised = None\<rparr>,
               \<lparr>pending = rest, received = seen @ [tok]\<rparr>)"
  by (subst fetch_loop.simps) (simp add: fetch_page_sim_break [OF assms])

lemma fetch_loop_raise:
  "fetch_loop sim_remote \<lparr>pending = Inl e # rest, received = seen\<rparr> v acc tok n
       = Some (\<lparr>fetched = acc, page_count = n + 1, raised = Some e\<rparr>,
               \<lparr>pending = rest, received = seen @ [tok]\<rparr>)"
  by (subst fetch_loop.simps) (simp add: fetch_page_sim_raise)

lemma fetch_loop_bad_item:
  assumes "list_all well_formed_item items" and "item_to_comment bad = Inl e"
  shows "fetch_loop sim_remote
           \<lparr>pending = page_response (items @ bad # later) cursor # rest, received = seen\<rparr>
           v acc tok n
       = Some (\<lparr>fetched = acc @ comments_of items, page_count = n + 1, raised = Some e\<rparr>,
               \<lparr>pending = rest, received = seen @ [tok]\<rparr>)"
  by (subst fetch_loop.simps) (simp add: fetch_page_sim_bad_item [OF assms])

lemma fetch_loop_fails_before:
  assumes "fails_before_items answer e"
  shows "fetch_loop sim_remote \<lparr>pending = answer # rest, received = seen\<rparr> v acc tok n
       = Some (\<lparr>fetched = acc, page_count = n + 1, raised = Some e\<rparr>,
               \<lparr>pending = rest, received = seen @ [tok]\<rparr>)"
  by (subst fetch_loop.simps) (simp add: fetch_page_sim_fails_before [OF assms])

lemma fetch_loop_fails_at_item:
  assumes "py_get response ''items'' (PList []) = Inr its"
    and "py_iter its = Inr (items @ bad # later)"
    and "list_all well_formed_item items" and "item_to_comment bad = Inl e"
  shows "fetch_loop sim_remote \<lparr>pending = Inr response # rest, received = seen\<rparr> v acc tok n
       = Some (\<lparr>fetched = acc @ comments_of items, page_count = n + 1, raised = Some e\<rparr>,
               \<lparr>pending = rest, received = seen @ [tok]\<rparr>)"
  by (subst fetch_loop.simps) (simp add: fetch_page_sim_fails_at_item [OF assms])

lemma good_pages_items:
  "list_all good_page ps \<Longrightarrow> list_all well_formed_item (concat (map fst ps))"
proof (induction ps)
  case Nil
  show ?case by simp
next
  case (Cons p ps)
  from Cons.prems have p: "good_page p" and ps: "list_all good_page ps" by simp_all
  from p have "list_all well_formed_item (fst p)" by (simp add: good_page_def)
  with Cons.IH [OF ps] show ?case by simp
qed

lemma tokens_sent: "butlast (tok # toks) @ [last (tok # toks)] = tok # toks"
  by (rule append_butlast_last_id) simp

text \<open>
  The run up to the request after a list of good pages: one request per page, each with
  the cursor of the page before, and the comments of all their items in order.
\<close>

lemma fetch_run_pages:
  assumes "list_all good_page ps"
  shows "fetch_run sim_remote \<lparr>pending = served_pages ps @ rest, received = []\<rparr> v
       = fetch_loop sim_remote
           \<lparr>pending = rest, received = butlast (PNone # map snd ps)\<rparr> v
           (comments_of (concat (map fst ps))) (last (PNone # map snd ps)) (length ps)"
  unfolding fetch_run_def using fetch_loop_pages [OF assms, of rest "[]" v "[]" PNone 0]
  by simp

lemma comments_of_Nil: "comments_of [] = []"
  by (simp add: comments_of_def)

lemma comments_of_thread_item:
  "comments_of (thread_item author n_likes n_replies body # items)
     = \<lparr>author_name = PStr author, likes = PInt n_likes,
        reply_count = PInt n_replies, comment_text = PStr body\<rparr> # comments_of items"
  by (rule comments_of_Cons) (rule thread_item_comment)

text \<open>
  C1 (as amended). A simulated source serves \<open>N\<close> batches of well-formed items; each
  batch but the last carries a cursor that is true as a Python object, and the last one
  carries none (or a false one: \<^verbatim>\<open>None\<close>, the empty string). Then \<^verbatim>\<open>fetch_comments\<close>
  returns; it has issued exactly \<open>N\<close> requests, the first with no page token and each
  later one with the cursor of the response before; no exception was raised; and the list
  it returns is, item by item and in the order of the source, the image of all the items
  under the per-item mapping.
\<close>

theorem fetch_comments_pagination:
  assumes "list_all good_page ps"
    and "list_all well_formed_item final_items"
    and "\<not> carries_cursor final_cursor"
  shows "\<exists>out.
           fetch_run sim_remote
             \<lparr>pending = served_pages ps @ [page_response final_items final_cursor],
              received = []\<rparr> v
             = Some (out, \<lparr>pending = [], received = PNone # map snd ps\<rparr>)
         \<and> page_count out = length ps + 1
         \<and> raised out = None
         \<and> map Inr (fetched out) = map item_to_comment (concat (map fst ps) @ final_items)
         \<and> fetch_comments sim_remote
             \<lparr>pending = served_pages ps @ [page_response final_items final_cursor],
              received = []\<rparr> v
             = Some (fetched out)"
proof -
  let ?s = "\<lparr>pending = served_pages ps @ [page_response final_items final_cursor],
             received = []\<rparr>"
  let ?out = "\<lparr>fetched = comments_of (concat (map fst ps)) @ comments_of final_items,
              page_count = length ps + 1, raised = None\<rparr>"
  have "fetch_run sim_remote ?s v
      = fetch_loop sim_remote
          \<lparr>pending = [page_response final_items final_cursor],
           received = butlast (PNone # map snd ps)\<rparr> v
          (comments_of (concat (map fst ps))) (last (PNone # map snd ps)) (length ps)"
    by (rule fetch_run_pages [OF assms(1)])
  also have "\<dots> = Some (?out, \<lparr>pending = [], received = PNone # map snd ps\<rparr>)"
    using tokens_sent [of PNone "map snd ps"] by (simp add: fetch_loop_break [OF assms(2,3)])
  finally have run: "fetch_run sim_remote ?s v
      = Some (?out, \<lparr>pending = [], received = PNone # map snd ps\<rparr>)" .
  have items: "list_all well_formed_item (concat (map fst ps))"
    by (rule good_pages_items [OF assms(1)])
  have "map Inr (fetched ?out) = map item_to_comment (concat (map fst ps) @ final_items)"
    using comments_of_map [OF items] comments_of_map [OF assms(2)] by simp
  with run show ?thesis by (simp add: fetch_comments_def)
qed

theorem fetch_comments_pagination_witness:
  "list_all good_page [([thread_item ''Ana'' 10 0 ''I love this!''], PStr ''CDIQAA'')]
   \<and> list_all well_formed_item [thread_item ''Ben'' 2 1 ''This is terrible.'']
   \<and> \<not> carries_cursor None
   \<and> fetch_comments sim_remote
        \<lparr>pending = served_pages [([thread_item ''Ana'' 10 0 ''I love this!''], PStr ''CDIQAA'')]
                     @ [page_response [thread_item ''Ben'' 2 1 ''This is terrible.''] None],
         received = []\<rparr> ''vid''
       = Some [\<lparr>author_name = PStr ''Ana'', likes = PInt 10, reply_count = PInt 0,
                 comment_text = PStr ''I love this!''\<rparr>,
               \<lparr>author_name = PStr ''Ben'', likes = PInt 2, reply_count = PInt 1,
                 comment_text = PStr ''This is terrible.''\<rparr>]"
proof -
  have ps: "list_all good_page [([thread_item ''Ana'' 10 0 ''I love this!''], PStr ''CDIQAA'')]"
    by (simp add: good_page_def thread_item_well_formed)
  have fin: "list_all well_formed_item [thread_item ''Ben'' 2 1 ''This is terrible.'']"
    by (simp add: thread_item_well_formed)
  have cur: "\<not> carries_cursor None"
    by (simp add: carries_cursor_def)
  obtain out :: fetch_outcome where
    items: "map Inr (fetched out)
        = map item_to_comment
            (concat (map fst [([thread_item ''Ana'' 10 0 ''I love this!''], PStr ''CDIQAA'')])
             @ [thread_item ''Ben'' 2 1 ''This is terrible.''])"
    and ret: "fetch_comments sim_remote
        \<lparr>pending = served_pages [([thread_item ''Ana'' 10 0 ''I love this!''], PStr ''CDIQAA'')]
                     @ [page_response [thread_item ''Ben'' 2 1 ''This is terrible.''] None],
         received = []\<rparr> ''vid'' = Some (fetched out)"
    using fetch_comments_pagination [OF ps fin cur, of "''vid''"] by blast
  from items have "fetched out
      = [\<lparr>author_name = PStr ''Ana'', likes = PInt 10, reply_count = PInt 0,
           comment_text = PStr ''I love this!''\<rparr>,
         \<lparr>author_name = PStr ''Ben'', likes = PInt 2, reply_count = PInt 1,
           comment_text = PStr ''This is terrible.''\<rparr>]"
    by (auto simp: thread_item_comment map_eq_Cons_conv)
  with ps fin cur ret show ?thesis by simp
qed

text \<open>
  C1 as stated fails in two ways. Where a batch that is not the last carries the empty
  string as its cursor, \<^verbatim>\<open>if not page_token: break\<close> takes it for no cursor: the
  first source below has two batches and the first carries a cursor, yet the collector
  issues one request and returns the first batch alone. And where a batch holds an item
  without the nested \<^verbatim>\<open>snippet\<close> structure, the per-item mapping raises: the second
  source has two batches with a cursor on the first, yet the collector stops in the
  first batch and returns the one item before the malformed one.
\<close>

theorem fetch_comments_pagination_counterexample:
  "fetch_run sim_remote
     \<lparr>pending = served_pages [([thread_item ''Ana'' 10 0 ''I love this!''], PStr [])]
                  @ [page_response [thread_item ''Ben'' 2 1 ''This is terrible.''] None],
      received = []\<rparr> ''vid''
   = Some (\<lparr>fetched = [\<lparr>author_name = PStr ''Ana'', likes = PInt 10, reply_count = PInt 0,
                          comment_text = PStr ''I love this!''\<rparr>],
            page_count = 1, raised = None\<rparr>,
           \<lparr>pending = [page_response [thread_item ''Ben'' 2 1 ''This is terrible.''] None],
            received = [PNone]\<rparr>)
   \<and> fetch_run sim_remote
     \<lparr>pending =
        [page_response [thread_item ''Ana'' 10 0 ''I love this!'',
                        PDict [(''kind'', PStr ''youtube#commentThread'')]]
           (Some (PStr ''CDIQAA'')),
         page_response [thread_item ''Ben'' 2 1 ''This is terrible.''] None],
      received = []\<rparr> ''vid''
   = Some (\<lparr>fetched = [\<lparr>author_name = PStr ''Ana'', likes = PInt 10, reply_count = PInt 0,
                          comment_text = PStr ''I love this!''\<rparr>],
            page_count = 1, raised = Some KeyError\<rparr>,
           \<lparr>pending = [page_response [thread_item ''Ben'' 2 1 ''This is terrible.''] None],
            received = [PNone]\<rparr>)"
proof -
  have wf: "list_all well_formed_item [thread_item ''Ana'' 10 0 ''I love this!'']"
    by (simp add: thread_item_well_formed)
  have cur: "\<not> carries_cursor (Some (PStr []))"
    by (simp add: carries_cursor_def)
  have bad: "item_to_comment (PDict [(''kind'', PStr ''youtube#commentThread'')]) = Inl KeyError"
    by (simp add: item_to_comment_def)
  have empty_cursor: "fetch_run sim_remote
      \<lparr>pending = served_pages [([thread_item ''Ana'' 10 0 ''I love this!''], PStr [])]
                   @ [page_response [thread_item ''Ben'' 2 1 ''This is terrible.''] None],
       received = []\<rparr> ''vid''
      = Some (\<lparr>fetched = [\<lparr>author_name = PStr ''Ana'', likes = PInt 10, reply_count = PInt 0,
                             comment_text = PStr ''I love this!''\<rparr>],
               page_count = 1, raised = None\<rparr>,
              \<lparr>pending = [page_response [thread_item ''Ben'' 2 1 ''This is terrible.''] None],
               received = [PNone]\<rparr>)"
    unfolding fetch_run_def served_pages_def
    by (simp add: fetch_loop_break [OF wf cur] comments_of_thread_item comments_of_Nil)
  have "fetch_run sim_remote
      \<lparr>pending =
         [page_response ([thread_item ''Ana'' 10 0 ''I love this!'']
                         @ PDict [(''kind'', PStr ''youtube#commentThread'')] # [])
            (Some (PStr ''CDIQAA'')),
          page_response [thread_item ''Ben'' 2 1 ''This is terrible.''] None],
       received = []\<rparr> ''vid''
      = Some (\<lparr>fetched = [\<lparr>author_name = PStr ''Ana'', likes = PInt 10, reply_count = PInt 0,
                             comment_text = PStr ''I love this!''\<rparr>],
               page_count = 1, raised = Some KeyError\<rparr>,
              \<lparr>pending = [page_response [thread_item ''Ben'' 2 1 ''This is terrible.''] None],
               received = [PNone]\<rparr>)"
    unfolding fetch_run_def
    by (simp only: fetch_loop_bad_item [OF wf bad])
       (simp add: comments_of_thread_item comments_of_Nil)
  then have malformed: "fetch_run sim_remote
      \<lparr>pending =
         [page_response [thread_item ''Ana'' 10 0 ''I love this!'',
                         PDict [(''kind'', PStr ''youtube#commentThread'')]]
            (Some (PStr ''CDIQAA'')),
          page_response [thread_item ''Ben'' 2 1 ''This is terrible.''] None],
       received = []\<rparr> ''vid''
      = Some (\<lparr>fetched = [\<lparr>author_name = PStr ''Ana'', likes = PInt 10, reply_count = PInt 0,
                             comment_text = PStr ''I love this!''\<rparr>],
               page_count = 1, raised = Some KeyError\<rparr>,
              \<lparr>pending = [page_response [thread_item ''Ben'' 2 1 ''This is terrible.''] None],
               received = [PNone]\<rparr>)"
    by simp
  from empty_cursor malformed show ?thesis by (rule conjI)
qed

text \<open>
  The cases of a failing answer are exhaustive: an answer fails before its items are
  read, or it is a response whose items are read up to a first malformed one, or all its
  items are well-formed (and the page does not fail).
\<close>

lemma first_malformed_item:
  "list_all well_formed_item xs
     \<or> (\<exists>items bad later e. xs = items @ bad # later
           \<and> list_all well_formed_item items \<and> item_to_comment bad = Inl e)"
proof (induction xs)
  case Nil
  show ?case by simp
next
  case (Cons x xs)
  show ?case
  proof (cases "item_to_comment x")
    case (Inl e)
    then have "x # xs = [] @ x # xs \<and> list_all well_formed_item []
        \<and> item_to_comment x = Inl e"
      by simp
    then show ?thesis by blast
  next
    case (Inr c)
    then have x: "well_formed_item x" by (simp add: well_formed_item_def)
    from Cons.IH show ?thesis
    proof
      assume "list_all well_formed_item xs"
      with x show ?thesis by simp
    next
      assume "\<exists>items bad later e. xs = items @ bad # later
          \<and> list_all well_formed_item items \<and> item_to_comment bad = Inl e"
      then obtain items bad later e where "xs = items @ bad # later"
        and "list_all well_formed_item items" and "item_to_comment bad = Inl e"
        by blast
      with x have "x # xs = (x # items) @ bad # later
          \<and> list_all well_formed_item (x # items) \<and> item_to_comment bad = Inl e"
        by simp
      then show ?thesis by blast
    qed
  qed
qed

lemma answer_cases:
  "(\<exists>e. fails_before_items answer e)
   \<or> (\<exists>response its items. answer = Inr response
         \<and> py_get response ''items'' (PList []) = Inr its \<and> py_iter its = Inr items)"
proof (cases answer)
  case (Inl e)
  then show ?thesis by (simp add: fails_before_items_def)
next
  case (Inr response)
  show ?thesis
  proof (cases "py_get response ''items'' (PList [])")
    case (Inl e)
    with Inr show ?thesis by (simp add: fails_before_items_def)
  next
    case its: (Inr its)
    show ?thesis
    proof (cases "py_iter its")
      case (Inl e)
      with Inr its show ?thesis by (simp add: fails_before_items_def)
    next
      case (Inr items)
      with \<open>answer = Inr response\<close> its show ?thesis by simp
    qed
  qed
qed

text \<open>
  C3 (as amended). After \<open>k - 1\<close> good pages, let the \<open>k\<close>-th request fail with \<open>e\<close>
  before any item of its page is read: the request raises (network, quota), or the
  response is malformed as a whole (it is no dict, or its items cannot be iterated).
  Then \<^verbatim>\<open>fetch_comments\<close> returns; the handler caught \<open>e\<close>; the source has received
  exactly \<open>k\<close> requests and the rest of its script is untouched; and the list returned
  holds exactly the comments of the pages \<open>1 .. k - 1\<close>. If instead the \<open>k\<close>-th response
  is malformed at one of its items, the same holds, but that the comments of the items
  before it on that page are returned as well. In every case the caller receives the
  bare list.
\<close>

theorem fetch_comments_failure:
  assumes "list_all good_page ps"
    and "fails_before_items answer e"
    and "py_get response ''items'' (PList []) = Inr its"
    and "py_iter its = Inr (items @ bad # later)"
    and "list_all well_formed_item items"
    and "item_to_comment bad = Inl e'"
  shows "fetch_run sim_remote \<lparr>pending = served_pages ps @ answer # rest, received = []\<rparr> v
           = Some (\<lparr>fetched = comments_of (concat (map fst ps)),
                    page_count = length ps + 1, raised = Some e\<rparr>,
                   \<lparr>pending = rest, received = PNone # map snd ps\<rparr>)
         \<and> fetch_comments sim_remote
             \<lparr>pending = served_pages ps @ answer # rest, received = []\<rparr> v
           = Some (comments_of (concat (map fst ps)))
         \<and> map Inr (comments_of (concat (map fst ps)))
           = map item_to_comment (concat (map fst ps))
         \<and> fetch_run sim_remote
             \<lparr>pending = served_pages ps @ Inr response # rest, received = []\<rparr> v
           = Some (\<lparr>fetched = comments_of (concat (map fst ps)) @ comments_of items,
                    page_count = length ps + 1, raised = Some e'\<rparr>,
                   \<lparr>pending = rest, received = PNone # map snd ps\<rparr>)
         \<and> fetch_comments sim_remote
             \<lparr>pending = served_pages ps @ Inr response # rest, received = []\<rparr> v
           = Some (comments_of (concat (map fst ps)) @ comments_of items)
         \<and> map Inr (comments_of items) = map item_to_comment items"
proof -
  have a: "fetch_run sim_remote \<lparr>pending = served_pages ps @ answer # rest, received = []\<rparr> v
      = Some (\<lparr>fetched = comments_of (concat (map fst ps)),
               page_count = length ps + 1, raised = Some e\<rparr>,
              \<lparr>pending = rest, received = PNone # map snd ps\<rparr>)"
    using tokens_sent [of PNone "map snd ps"]
    by (simp add: fetch_run_pages [OF assms(1)] fetch_loop_fails_before [OF assms(2)])
  have b: "map Inr (comments_of (concat (map fst ps)))
      = map item_to_comment (concat (map fst ps))"
    by (rule comments_of_map [OF good_pages_items [OF assms(1)]])
  have c: "fetch_run sim_remote
      \<lparr>pending = served_pages ps @ Inr response # rest, received = []\<rparr> v
      = Some (\<lparr>fetched = comments_of (concat (map fst ps)) @ comments_of items,
               page_count = length ps + 1, raised = Some e'\<rparr>,
              \<lparr>pending = rest, received = PNone # map snd ps\<rparr>)"
    using tokens_sent [of PNone "map snd ps"]
    by (simp add: fetch_run_pages [OF assms(1)] fetch_loop_fails_at_item [OF assms(3,4,5,6)])
  have d: "map Inr (comments_of items) = map item_to_comment items"
    by (rule comments_of_map [OF assms(5)])
  from a b c d show ?thesis by (simp add: fetch_comments_def)
qed

theorem fetch_comments_failure_witness:
  "list_all good_page [([thread_item ''Ana'' 10 0 ''I love this!''], PStr ''CDIQAA'')]
   \<and> fails_before_items (Inl HttpError) HttpError
   \<and> fails_before_items (Inr (PList [])) AttributeError
   \<and> fails_before_items (Inr (PDict [(''items'', PNone)])) TypeError
   \<and> py_get (PDict [(''items'', PList [thread_item ''Ben'' 2 1 ''This is terrible.'', PDict []])])
        ''items'' (PList [])
       = Inr (PList [thread_item ''Ben'' 2 1 ''This is terrible.'', PDict []])
   \<and> py_iter (PList [thread_item ''Ben'' 2 1 ''This is terrible.'', PDict []])
       = Inr ([thread_item ''Ben'' 2 1 ''This is terrible.''] @ PDict [] # [])
   \<and> list_all well_formed_item [thread_item ''Ben'' 2 1 ''This is terrible.'']
   \<and> item_to_comment (PDict []) = Inl KeyError
   \<and> fetch_run sim_remote
        \<lparr>pending = served_pages [([thread_item ''Ana'' 10 0 ''I love this!''], PStr ''CDIQAA'')]
                     @ Inl HttpError # [page_response [] None],
         received = []\<rparr> ''vid''
       = Some (\<lparr>fetched = [\<lparr>author_name = PStr ''Ana'', likes = PInt 10,
                              reply_count = PInt 0, comment_text = PStr ''I love this!''\<rparr>],
                page_count = 2, raised = Some HttpError\<rparr>,
               \<lparr>pending = [page_response [] None], received = [PNone, PStr ''CDIQAA'']\<rparr>)
   \<and> fetch_run sim_remote
        \<lparr>pending = served_pages [([thread_item ''Ana'' 10 0 ''I love this!''], PStr ''CDIQAA'')]
                     @ Inr (PList []) # [page_response [] None],
         received = []\<rparr> ''vid''
       = Some (\<lparr>fetched = [\<lparr>author_name = PStr ''Ana'', likes = PInt 10,
                              reply_count = PInt 0, comment_text = PStr ''I love this!''\<rparr>],
                page_count = 2, raised = Some AttributeError\<rparr>,
               \<lparr>pending = [page_response [] None], received = [PNone, PStr ''CDIQAA'']\<rparr>)
   \<and> fetch_run sim_remote
        \<lparr>pending = served_pages [([thread_item ''Ana'' 10 0 ''I love this!''], PStr ''CDIQAA'')]
                     @ Inr (PDict [(''items'', PNone)]) # [page_response [] None],
         received = []\<rparr> ''vid''
       = Some (\<lparr>fetched = [\<lparr>author_name = PStr ''Ana'', likes = PInt 10,
                              reply_count = PInt 0, comment_text = PStr ''I love this!''\<rparr>],
                page_count = 2, raised = Some TypeError\<rparr>,
               \<lparr>pending = [page_response [] None], received = [PNone, PStr ''CDIQAA'']\<rparr>)
   \<and> fetch_run sim_remote
        \<lparr>pending = served_pages [([thread_item ''Ana'' 10 0 ''I love this!''], PStr ''CDIQAA'')]
                     @ Inr (PDict [(''items'',
                              PList [thread_item ''Ben'' 2 1 ''This is terrible.'', PDict []])])
                       # [page_response [] None],
         received = []\<rparr> ''vid''
       = Some (\<lparr>fetched = [\<lparr>author_name = PStr ''Ana'', likes = PInt 10,
                              reply_count = PInt 0, comment_text = PStr ''I love this!''\<rparr>,
                            \<lparr>author_name = PStr ''Ben'', likes = PInt 2,
                              reply_count = PInt 1, comment_text = PStr ''This is terrible.''\<rparr>],
                page_count = 2, raised = Some KeyError\<rparr>,
               \<lparr>pending = [page_response [] None], received = [PNone, PStr ''CDIQAA'']\<rparr>)"
proof -
  let ?resp = "PDict [(''items'', PList [thread_item ''Ben'' 2 1 ''This is terrible.'', PDict []])]"
  have ps: "list_all good_page [([thread_item ''Ana'' 10 0 ''I love this!''], PStr ''CDIQAA'')]"
    by (simp add: good_page_def thread_item_well_formed)
  have f1: "fails_before_items (Inl HttpError) HttpError"
    and f2: "fails_before_items (Inr (PList [])) AttributeError"
    and f3: "fails_before_items (Inr (PDict [(''items'', PNone)])) TypeError"
    by (simp_all add: fails_before_items_def)
  have get: "py_get ?resp ''items'' (PList [])
      = Inr (PList [thread_item ''Ben'' 2 1 ''This is terrible.'', PDict []])"
    by simp
  have iter: "py_iter (PList [thread_item ''Ben'' 2 1 ''This is terrible.'', PDict []])
      = Inr ([thread_item ''Ben'' 2 1 ''This is terrible.''] @ PDict [] # [])"
    by simp
  have wf: "list_all well_formed_item [thread_item ''Ben'' 2 1 ''This is terrible.'']"
    by (simp add: thread_item_well_formed)
  have bad: "item_to_comment (PDict []) = Inl KeyError"
    by (simp add: item_to_comment_def)
  note thm1 = fetch_comments_failure
    [where rest = "[page_response [] None]" and v = "''vid''", OF ps f1 get iter wf bad]
  note thm2 = fetch_comments_failure
    [where rest = "[page_response [] None]" and v = "''vid''", OF ps f2 get iter wf bad]
  note thm3 = fetch_comments_failure
    [where rest = "[page_response [] None]" and v = "''vid''", OF ps f3 get iter wf bad]
  have r1: "fetch_run sim_remote
        \<lparr>pending = served_pages [([thread_item ''Ana'' 10 0 ''I love this!''], PStr ''CDIQAA'')]
                     @ Inl HttpError # [page_response [] None],
         received = []\<rparr> ''vid''
       = Some (\<lparr>fetched = [\<lparr>author_name = PStr ''Ana'', likes = PInt 10,
                              reply_count = PInt 0, comment_text = PStr ''I love this!''\<rparr>],
                page_count = 2, raised = Some HttpError\<rparr>,
               \<lparr>pending = [page_response [] None], received = [PNone, PStr ''CDIQAA'']\<rparr>)"
    using thm1 by (simp add: comments_of_thread_item comments_of_Nil)
  have r2: "fetch_run sim_remote
        \<lparr>pending = served_pages [([thread_item ''Ana'' 10 0 ''I love this!''], PStr ''CDIQAA'')]
                     @ Inr (PList []) # [page_response [] None],
         received = []\<rparr> ''vid''
       = Some (\<lparr>fetched = [\<lparr>author_name = PStr ''Ana'', likes = PInt 10,
                              reply_count = PInt 0, comment_text = PStr ''I love this!''\<rparr>],
                page_count = 2, raised = Some AttributeError\<rparr>,
               \<lparr>pending = [page_response [] None], received = [PNone, PStr ''CDIQAA'']\<rparr>)"
    using thm2 by (simp add: comments_of_thread_item comments_of_Nil)
  have r3: "fetch_run sim_remote
        \<lparr>pending = served_pages [([thread_item ''Ana'' 10 0 ''I love this!''], PStr ''CDIQAA'')]
                     @ Inr (PDict [(''items'', PNone)]) # [page_response [] None],
         received = []\<rparr> ''vid''
       = Some (\<lparr>fetched = [\<lparr>author_name = PStr ''Ana'', likes = PInt 10,
                              reply_count = PInt 0, comment_text = PStr ''I love this!''\<rparr>],
                page_count = 2, raised = Some TypeError\<rparr>,
               \<lparr>pending = [page_response [] None], received = [PNone, PStr ''CDIQAA'']\<rparr>)"
    using thm3 by (simp add: comments_of_thread_item comments_of_Nil)
  have r4: "fetch_run sim_remote
        \<lparr>pending = served_pages [([thread_item ''Ana'' 10 0 ''I love this!''], PStr ''CDIQAA'')]
                     @ Inr ?resp # [page_response [] None],
         received = []\<rparr> ''vid''
       = Some (\<lparr>fetched = [\<lparr>author_name = PStr ''Ana'', likes = PInt 10,
                              reply_count = PInt 0, comment_text = PStr ''I love this!''\<rparr>,
                            \<lparr>author_name = PStr ''Ben'', likes = PInt 2,
                              reply_count = PInt 1, comment_text = PStr ''This is terrible.''\<rparr>],
                page_count = 2, raised = Some KeyError\<rparr>,
               \<lparr>pending = [page_response [] None], received = [PNone, PStr ''CDIQAA'']\<rparr>)"
    using thm1 by (simp add: comments_of_thread_item comments_of_Nil)
  from ps f1 f2 f3 get iter wf bad r1 r2 r3 r4 show ?thesis by (intro conjI)
qed

text \<open>
  C3 as stated fails twice. First, the caller gets no signal: a collection cut short by a
  failed second request returns the very value that a complete collection of one page
  returns. Second, a response that is malformed at its second item leaves the first item
  of that page in the result, so more than the pages before the failure is returned.
\<close>

theorem fetch_comments_failure_counterexample:
  "fetch_comments sim_remote
     \<lparr>pending = served_pages [([thread_item ''Ana'' 10 0 ''I love this!''], PStr ''CDIQAA'')]
                  @ [Inl HttpError],
      received = []\<rparr> ''vid''
   = fetch_comments sim_remote
     \<lparr>pending = [page_response [thread_item ''Ana'' 10 0 ''I love this!''] None],
      received = []\<rparr> ''vid''
   \<and> fetch_comments sim_remote
     \<lparr>pending = served_pages [([thread_item ''Ana'' 10 0 ''I love this!''], PStr ''CDIQAA'')]
                  @ [page_response [thread_item ''Ben'' 2 1 ''This is terrible.'', PDict []]
                       None],
      received = []\<rparr> ''vid''
   = Some [\<lparr>author_name = PStr ''Ana'', likes = PInt 10, reply_count = PInt 0,
             comment_text = PStr ''I love this!''\<rparr>,
           \<lparr>author_name = PStr ''Ben'', likes = PInt 2, reply_count = PInt 1,
             comment_text = PStr ''This is terrible.''\<rparr>]"
proof -
  have ps: "list_all good_page [([thread_item ''Ana'' 10 0 ''I love this!''], PStr ''CDIQAA'')]"
    by (simp add: good_page_def thread_item_well_formed)
  have ana: "list_all well_formed_item [thread_item ''Ana'' 10 0 ''I love this!'']"
    by (simp add: thread_item_well_formed)
  have ben: "list_all well_formed_item [thread_item ''Ben'' 2 1 ''This is terrible.'']"
    by (simp add: thread_item_well_formed)
  have bad: "item_to_comment (PDict []) = Inl KeyError"
    by (simp add: item_to_comment_def)
  have cur: "\<not> carries_cursor None"
    by (simp add: carries_cursor_def)
  have failed: "fetch_comments sim_remote
      \<lparr>pending = served_pages [([thread_item ''Ana'' 10 0 ''I love this!''], PStr ''CDIQAA'')]
                   @ [Inl HttpError],
       received = []\<rparr> ''vid''
      = Some [\<lparr>author_name = PStr ''Ana'', likes = PInt 10, reply_count = PInt 0,
                comment_text = PStr ''I love this!''\<rparr>]"
    by (simp add: fetch_comments_def fetch_run_pages [OF ps] fetch_loop_raise
          comments_of_thread_item comments_of_Nil)
  have complete: "fetch_comments sim_remote
      \<lparr>pending = [page_response [thread_item ''Ana'' 10 0 ''I love this!''] None],
       received = []\<rparr> ''vid''
      = Some [\<lparr>author_name = PStr ''Ana'', likes = PInt 10, reply_count = PInt 0,
                comment_text = PStr ''I love this!''\<rparr>]"
    by (simp add: fetch_comments_def fetch_run_def fetch_loop_break [OF ana cur]
          comments_of_thread_item comments_of_Nil)
  have partial: "fetch_comments sim_remote
      \<lparr>pending = served_pages [([thread_item ''Ana'' 10 0 ''I love this!''], PStr ''CDIQAA'')]
                   @ [page_response ([thread_item ''Ben'' 2 1 ''This is terrible.'']
                        @ PDict [] # []) None],
       received = []\<rparr> ''vid''
      = Some [\<lparr>author_name = PStr ''Ana'', likes = PInt 10, reply_count = PInt 0,
                comment_text = PStr ''I love this!''\<rparr>,
              \<lparr>author_name = PStr ''Ben'', likes = PInt 2, reply_count = PInt 1,
                comment_text = PStr ''This is terrible.''\<rparr>]"
    by (simp only: fetch_comments_def fetch_run_pages [OF ps] fetch_loop_bad_item [OF ben bad])
       (simp add: comments_of_thread_item comments_of_Nil)
  from failed complete partial show ?thesis by simp
qed

subsection \<open>The per-item mapping\<close>

lemma py_subscript_cases:
  obtains (dict) kvs x where "v = PDict kvs" and "map_of kvs k = Some x"
      and "py_subscript v k = Inr x"
    | (missing) kvs where "v = PDict kvs" and "map_of kvs k = None"
      and "py_subscript v k = Inl KeyError"
    | (no_dict) "\<forall>kvs. v \<noteq> PDict kvs" and "py_subscript v k = Inl TypeError"
proof (cases v)
  case (PDict kvs)
  then show ?thesis
    by (cases "map_of kvs k") (auto intro: dict missing)
qed (auto intro: no_dict)

lemma py_get_no_dict: "\<forall>kvs. v \<noteq> PDict kvs \<Longrightarrow> py_get v k d = Inl AttributeError"
  by (cases v) auto

text \<open>An item without the nested structure raises one of three exceptions.\<close>

lemma item_to_comment_unstructured:
  assumes "\<forall>kvs thread top_kvs snippet.
      \<not> (item = PDict kvs \<and> map_of kvs ''snippet'' = Some (PDict thread)
         \<and> map_of thread ''topLevelComment'' = Some (PDict top_kvs)
         \<and> map_of top_kvs ''snippet'' = Some (PDict snippet))"
  shows "item_to_comment item = Inl KeyError \<or> item_to_comment item = Inl TypeError
    \<or> item_to_comment item = Inl AttributeError"
proof (cases item "''snippet''" rule: py_subscript_cases)
  case (dict kvs thread)
  note item = dict
  show ?thesis
  proof (cases thread "''topLevelComment''" rule: py_subscript_cases)
    case (dict tkvs top_level)
    note thread = dict
    show ?thesis
    proof (cases top_level "''snippet''" rule: py_subscript_cases)
      case (dict pkvs snippet)
      with item thread assms have "\<forall>skvs. snippet \<noteq> PDict skvs" by blast
      then have "py_get snippet ''authorDisplayName'' (PStr []) = Inl AttributeError"
        by (rule py_get_no_dict)
      with item thread dict show ?thesis by (simp add: item_to_comment_def)
    next
      case (missing pkvs)
      with item thread show ?thesis by (simp add: item_to_comment_def)
    next
      case no_dict
      with item thread show ?thesis by (simp add: item_to_comment_def)
    qed
  next
    case (missing tkvs)
    with item show ?thesis by (simp add: item_to_comment_def)
  next
    case no_dict
    with item show ?thesis by (simp add: item_to_comment_def)
  qed
next
  case (missing kvs)
  then show ?thesis by (simp add: item_to_comment_def)
next
  case no_dict
  then show ?thesis by (simp add: item_to_comment_def)
qed

text \<open>
  C7 (as amended). For an item that is a dict whose \<^verbatim>\<open>snippet\<close> is a dict, whose
  \<^verbatim>\<open>topLevelComment\<close> is a dict and whose inner \<^verbatim>\<open>snippet\<close> is a dict, the per-item
  mapping succeeds: the author is the display name or the empty string, the likes are
  the like count or 0, the reply count is the count of the thread (not of the comment)
  or 0, and the text is the displayed text or the empty string. Every other item makes
  the mapping raise KeyError, TypeError or AttributeError.
\<close>

theorem item_to_comment_defaults:
  "(map_of item_kvs ''snippet'' = Some (PDict thread)
      \<and> map_of thread ''topLevelComment'' = Some (PDict top_kvs)
      \<and> map_of top_kvs ''snippet'' = Some (PDict snippet)
    \<longrightarrow> item_to_comment (PDict item_kvs)
       = Inr \<lparr>author_name =
                (case map_of snippet ''authorDisplayName'' of None \<Rightarrow> PStr [] | Some v \<Rightarrow> v),
              likes = (case map_of snippet ''likeCount'' of None \<Rightarrow> PInt 0 | Some v \<Rightarrow> v),
              reply_count = (case map_of thread ''replyCount'' of None \<Rightarrow> PInt 0 | Some v \<Rightarrow> v),
              comment_text =
                (case map_of snippet ''textDisplay'' of None \<Rightarrow> PStr [] | Some v \<Rightarrow> v)\<rparr>)
   \<and> ((\<forall>kvs th tkvs sn.
          \<not> (item = PDict kvs \<and> map_of kvs ''snippet'' = Some (PDict th)
             \<and> map_of th ''topLevelComment'' = Some (PDict tkvs)
             \<and> map_of tkvs ''snippet'' = Some (PDict sn)))
    \<longrightarrow> item_to_comment item = Inl KeyError \<or> item_to_comment item = Inl TypeError
        \<or> item_to_comment item = Inl AttributeError)"
proof (intro conjI impI)
  assume "map_of item_kvs ''snippet'' = Some (PDict thread)
      \<and> map_of thread ''topLevelComment'' = Some (PDict top_kvs)
      \<and> map_of top_kvs ''snippet'' = Some (PDict snippet)"
  then show "item_to_comment (PDict item_kvs)
       = Inr \<lparr>author_name =
                (case map_of snippet ''authorDisplayName'' of None \<Rightarrow> PStr [] | Some v \<Rightarrow> v),
              likes = (case map_of snippet ''likeCount'' of None \<Rightarrow> PInt 0 | Some v \<Rightarrow> v),
              reply_count = (case map_of thread ''replyCount'' of None \<Rightarrow> PInt 0 | Some v \<Rightarrow> v),
              comment_text =
                (case map_of snippet ''textDisplay'' of None \<Rightarrow> PStr [] | Some v \<Rightarrow> v)\<rparr>"
    by (simp add: item_to_comment_def)
next
  assume "\<forall>kvs th tkvs sn.
          \<not> (item = PDict kvs \<and> map_of kvs ''snippet'' = Some (PDict th)
             \<and> map_of th ''topLevelComment'' = Some (PDict tkvs)
             \<and> map_of tkvs ''snippet'' = Some (PDict sn))"
  then show "item_to_comment item = Inl KeyError \<or> item_to_comment item = Inl TypeError
        \<or> item_to_comment item = Inl AttributeError"
    by (rule item_to_comment_unstructured)
qed

theorem item_to_comment_defaults_witness:
  "item_to_comment
     (PDict [(''snippet'', PDict
        [(''topLevelComment'', PDict [(''snippet'', PDict [(''textDisplay'', PStr ''hi'')])])])])
   = Inr \<lparr>author_name = PStr [], likes = PInt 0, reply_count = PInt 0,
          comment_text = PStr ''hi''\<rparr>
   \<and> item_to_comment
       (PDict [(''snippet'', PDict
          [(''topLevelComment'', PDict [(''snippet'', PStr ''hi'')])])])
     = Inl AttributeError"
proof -
  let ?bad = "PDict [(''snippet'', PDict
          [(''topLevelComment'', PDict [(''snippet'', PStr ''hi'')])])]"
  have unstructured: "\<forall>kvs th tkvs sn.
      \<not> (?bad = PDict kvs \<and> map_of kvs ''snippet'' = Some (PDict th)
         \<and> map_of th ''topLevelComment'' = Some (PDict tkvs)
         \<and> map_of tkvs ''snippet'' = Some (PDict sn))"
    by auto
  have not_key: "item_to_comment ?bad \<noteq> Inl KeyError"
    and not_type: "item_to_comment ?bad \<noteq> Inl TypeError"
    by (simp_all add: item_to_comment_def)
  from item_to_comment_defaults
    [of "[(''snippet'', PDict
            [(''topLevelComment'', PDict [(''snippet'', PDict [(''textDisplay'', PStr ''hi'')])])])]"
        "[(''topLevelComment'', PDict [(''snippet'', PDict [(''textDisplay'', PStr ''hi'')])])]"
        "[(''snippet'', PDict [(''textDisplay'', PStr ''hi'')])]"
        "[(''textDisplay'', PStr ''hi'')]"
        ?bad]
    unstructured not_key not_type
  show ?thesis by simp
qed

text \<open>
  C7 as stated fails: the mapping is not total. An item without a \<^verbatim>\<open>snippet\<close> entry
  raises KeyError, and so does a thread without a \<^verbatim>\<open>topLevelComment\<close>.
\<close>

theorem item_to_comment_counterexample:
  "item_to_comment (PDict [(''kind'', PStr ''youtube#commentThread'')]) = Inl KeyError
   \<and> item_to_comment (PDict [(''snippet'', PDict [(''replyCount'', PInt 3)])]) = Inl KeyError"
  by (simp add: item_to_comment_def)

section \<open>Properties of the analyzer\<close>

subsection \<open>Classification\<close>

text \<open>
  C2. \<^verbatim>\<open>classify_sentiment\<close> is a function of the compound score alone. It gives
  Positive exactly above 0.05, Negative exactly below -0.05 and Neutral exactly between
  the two, the thresholds included; and the nine scores of the specification get the nine
  labels it lists.
\<close>

theorem classify_sentiment_thresholds:
  "(classify_sentiment c = ''Positive'' \<longleftrightarrow> c > 0.05)
   \<and> (classify_sentiment c = ''Negative'' \<longleftrightarrow> c < - 0.05)
   \<and> (classify_sentiment c = ''Neutral'' \<longleftrightarrow> - 0.05 \<le> c \<and> c \<le> 0.05)
   \<and> map classify_sentiment [- 1, - 0.06, - 0.05, - 0.04, 0, 0.04, 0.05, 0.06, 1]
       = [''Negative'', ''Negative'', ''Neutral'', ''Neutral'', ''Neutral'', ''Neutral'',
          ''Neutral'', ''Positive'', ''Positive'']"
  by (simp add: classify_sentiment_def POSITIVE_THRESHOLD_def NEGATIVE_THRESHOLD_def)

subsection \<open>The analysis loop\<close>

lemma analyze_one_Inr:
  assumes "analyze_one sia rnd c = Inr a"
  obtains sc where "sia (text_of c) = Inr sc"
    and "a = \<lparr>author_name = dict_get c ''author_name'' (PStr []),
              likes = dict_get c ''likes'' (PInt 0),
              reply_count = dict_get c ''reply_count'' (PInt 0),
              comment_text = text_of c,
              positive_score = rnd (pos sc) 4,
              negative_score = rnd (neg sc) 4,
              neutral_score = rnd (neu sc) 4,
              compound_score = rnd (compound sc) 4,
              sentiment = classify_sentiment (compound sc)\<rparr>"
  using assms
  by (cases "sia (text_of c)") (auto simp: analyze_one_def text_of_def Let_def)

lemma analyze_loop_all2:
  "analyze_loop sia rnd cs acc = Inr r
     \<Longrightarrow> \<exists>new. r = acc @ new \<and> list_all2 (\<lambda>c a. analyze_one sia rnd c = Inr a) cs new"
proof (induction cs arbitrary: acc)
  case Nil
  then show ?case by simp
next
  case (Cons c cs)
  show ?case
  proof (cases "analyze_one sia rnd c")
    case (Inl e)
    with Cons.prems show ?thesis by simp
  next
    case (Inr a)
    with Cons.prems have "analyze_loop sia rnd cs (acc @ [a]) = Inr r" by simp
    then obtain new where "r = (acc @ [a]) @ new"
      and "list_all2 (\<lambda>c a. analyze_one sia rnd c = Inr a) cs new"
      using Cons.IH by blast
    with Inr have "r = acc @ (a # new) \<and> list_all2 (\<lambda>c a. analyze_one sia rnd c = Inr a) (c # cs) (a # new)"
      by simp
    then show ?thesis by blast
  qed
qed

lemma analyze_loop_total:
  "list_all (\<lambda>c. \<not> isl (sia (text_of c))) cs \<Longrightarrow> \<exists>r. analyze_loop sia rnd cs acc = Inr r"
proof (induction cs arbitrary: acc)
  case Nil
  show ?case by simp
next
  case (Cons c cs)
  from Cons.prems obtain sc where "sia (text_of c) = Inr sc"
    by (cases "sia (text_of c)") auto
  then obtain a where "analyze_one sia rnd c = Inr a"
    by (simp add: analyze_one_def text_of_def Let_def)
  moreover from Cons.prems have "list_all (\<lambda>c. \<not> isl (sia (text_of c))) cs" by simp
  then obtain r where "analyze_loop sia rnd cs (acc @ [a]) = Inr r"
    using Cons.IH by blast
  ultimately show ?case by simp
qed

lemma list_all2_right: "list_all2 (\<lambda>x y. P y) xs ys \<Longrightarrow> list_all P ys"
  by (induction rule: list_all2_induct) simp_all

lemma dict_get_present: "map_of c k = Some v \<Longrightarrow> dict_get c k d = v"
  by (simp add: dict_get_def)

text \<open>The label depends on the row through its text alone.\<close>

lemma analyze_one_label_of_text:
  assumes "analyze_one sia rnd c = Inr a" and "analyze_one sia rnd c' = Inr a'"
    and "text_of c = text_of c'"
  shows "sentiment a = sentiment a'"
  using assms by (auto elim!: analyze_one_Inr)

lemma example_analysis:
  "analyze_comments example_scorer example_round \<lparr>comments = example_rows, analyzed_comments = []\<rparr>
     = Inr \<lparr>comments = example_rows, analyzed_comments = example_analyzed\<rparr>"
  by (simp add: analyze_comments_def analyze_one_def example_scorer_def example_rows_def
        example_analyzed_def dict_get_def example_round_def classify_sentiment_def
        POSITIVE_THRESHOLD_def NEGATIVE_THRESHOLD_def Let_def)

text \<open>
  C4. Let the scorer accept the text of every loaded comment and give it a compound
  score that rounding to four decimals leaves as it is (the scorer of the program,
  nltk's VADER, returns its compound score rounded to four decimals). Then the analysis
  returns, and for every scored comment it appends the stored label is the one that the
  thresholds give to the stored compound score: Positive exactly where the stored score
  is above 0.05, Negative exactly where it is below -0.05, Neutral exactly in between.
  The label is a function of the stored compound score alone.
\<close>

theorem analyze_comments_sentiment:
  assumes "list_all
      (\<lambda>c. case sia (text_of c) of
              Inl e \<Rightarrow> False
            | Inr sc \<Rightarrow> rnd (compound sc) 4 = compound sc)
      (comments st)"
  shows "\<exists>new. analyze_comments sia rnd st
             = Inr (st\<lparr>analyzed_comments := analyzed_comments st @ new\<rparr>)
         \<and> length new = length (comments st)
         \<and> list_all
             (\<lambda>a. sentiment a = classify_sentiment (compound_score a)
                \<and> (sentiment a = ''Positive'' \<longleftrightarrow> compound_score a > 0.05)
                \<and> (sentiment a = ''Negative'' \<longleftrightarrow> compound_score a < - 0.05)
                \<and> (sentiment a = ''Neutral''
                     \<longleftrightarrow> - 0.05 \<le> compound_score a \<and> compound_score a \<le> 0.05))
             new"
proof -
  from assms have "list_all (\<lambda>c. \<not> isl (sia (text_of c))) (comments st)"
    by (rule list.pred_mono_strong) (auto split: sum.splits)
  then obtain r where r: "analyze_loop sia rnd (comments st) (analyzed_comments st) = Inr r"
    using analyze_loop_total by blast
  then obtain new where new: "r = analyzed_comments st @ new"
    and all: "list_all2 (\<lambda>c a. analyze_one sia rnd c = Inr a) (comments st) new"
    using analyze_loop_all2 by blast
  from assms have fixed: "\<forall>c \<in> set (comments st). \<forall>sc. sia (text_of c) = Inr sc
      \<longrightarrow> rnd (compound sc) 4 = compound sc"
    by (auto simp: list_all_iff split: sum.splits)
  have "sentiment a = classify_sentiment (compound_score a)"
    if "c \<in> set (comments st)" and "analyze_one sia rnd c = Inr a" for c a
  proof -
    from that(2) obtain sc where sc: "sia (text_of c) = Inr sc"
      and lab: "sentiment a = classify_sentiment (compound sc)"
      and sto: "compound_score a = rnd (compound sc) 4"
      by (auto elim!: analyze_one_Inr)
    from fixed that(1) sc have "rnd (compound sc) 4 = compound sc" by blast
    with lab sto show ?thesis by simp
  qed
  with all have "list_all2 (\<lambda>c a. sentiment a = classify_sentiment (compound_score a))
      (comments st) new"
    by (rule list.rel_mono_strong)
  then have "list_all (\<lambda>a. sentiment a = classify_sentiment (compound_score a)) new"
    by (rule list_all2_right)
  then have "list_all
      (\<lambda>a. sentiment a = classify_sentiment (compound_score a)
         \<and> (sentiment a = ''Positive'' \<longleftrightarrow> compound_score a > 0.05)
         \<and> (sentiment a = ''Negative'' \<longleftrightarrow> compound_score a < - 0.05)
         \<and> (sentiment a = ''Neutral''
              \<longleftrightarrow> - 0.05 \<le> compound_score a \<and> compound_score a \<le> 0.05))
      new"
    by (rule list.pred_mono_strong)
       (auto simp: classify_sentiment_def POSITIVE_THRESHOLD_def NEGATIVE_THRESHOLD_def
          split: if_splits)
  moreover from all have "length new = length (comments st)"
    by (simp add: list_all2_lengthD)
  moreover from r new have "analyze_comments sia rnd st
      = Inr (st\<lparr>analyzed_comments := analyzed_comments st @ new\<rparr>)"
    by (simp add: analyze_comments_def)
  ultimately show ?thesis by blast
qed

theorem analyze_comments_sentiment_witness:
  "list_all
     (\<lambda>c. case example_scorer (text_of c) of
             Inl e \<Rightarrow> False
           | Inr sc \<Rightarrow> example_round (compound sc) 4 = compound sc)
     example_rows
   \<and> analyze_comments example_scorer example_round
        \<lparr>comments = example_rows, analyzed_comments = []\<rparr>
       = Inr \<lparr>comments = example_rows, analyzed_comments = example_analyzed\<rparr>
   \<and> map compound_score example_analyzed = [0.6696, - 0.4767]
   \<and> map sentiment example_analyzed = [''Positive'', ''Negative'']
   \<and> list_all (\<lambda>a. sentiment a = classify_sentiment (compound_score a)) example_analyzed"
proof -
  have fixed: "list_all
      (\<lambda>c. case example_scorer (text_of c) of
              Inl e \<Rightarrow> False
            | Inr sc \<Rightarrow> example_round (compound sc) 4 = compound sc)
      (comments \<lparr>comments = example_rows, analyzed_comments = []\<rparr>)"
    by (simp add: example_rows_def example_scorer_def example_round_def text_of_def
          dict_get_def)
  obtain new where run: "analyze_comments example_scorer example_round
        \<lparr>comments = example_rows, analyzed_comments = []\<rparr>
      = Inr (\<lparr>comments = example_rows, analyzed_comments = []\<rparr>
               \<lparr>analyzed_comments := analyzed_comments
                  \<lparr>comments = example_rows, analyzed_comments = []\<rparr> @ new\<rparr>)"
    and labels: "list_all
      (\<lambda>a. sentiment a = classify_sentiment (compound_score a)
         \<and> (sentiment a = ''Positive'' \<longleftrightarrow> compound_score a > 0.05)
         \<and> (sentiment a = ''Negative'' \<longleftrightarrow> compound_score a < - 0.05)
         \<and> (sentiment a = ''Neutral''
              \<longleftrightarrow> - 0.05 \<le> compound_score a \<and> compound_score a \<le> 0.05))
      new"
    using analyze_comments_sentiment
      [where sia = example_scorer and rnd = example_round
         and st = "\<lparr>comments = example_rows, analyzed_comments = []\<rparr>", OF fixed]
    by blast
  from run have new: "new = example_analyzed"
    by (simp add: example_analysis)
  from labels have "list_all (\<lambda>a. sentiment a = classify_sentiment (compound_score a)) new"
    by (rule list.pred_mono_strong) simp
  moreover have "map compound_score example_analyzed = [0.6696, - 0.4767]"
    and "map sentiment example_analyzed = [''Positive'', ''Negative'']"
    by (simp_all add: example_analyzed_def)
  ultimately show ?thesis using fixed new by (simp add: example_analysis)
qed

text \<open>
  C10. Where the scorer accepts the text of every loaded comment,
  \<^verbatim>\<open>analyze_comments\<close> returns, leaves the loaded comments as they are and appends one
  analyzed record per loaded comment, in the order of the input; each record holds what
  the comment holds under \<^verbatim>\<open>author_name\<close>, \<^verbatim>\<open>comment_text\<close>, \<^verbatim>\<open>likes\<close> and
  \<^verbatim>\<open>reply_count\<close> (read with \<^verbatim>\<open>.get\<close>, so the default where the row lacks the
  column).
\<close>

theorem analyze_comments_frame:
  assumes "list_all (\<lambda>c. \<not> isl (sia (text_of c))) (comments st)"
  shows "\<exists>new. analyze_comments sia rnd st
             = Inr (st\<lparr>analyzed_comments := analyzed_comments st @ new\<rparr>)
         \<and> length new = length (comments st)
         \<and> list_all2
             (\<lambda>c a. author_name a = dict_get c ''author_name'' (PStr [])
                \<and> comment_text a = dict_get c ''comment_text'' (PStr [])
                \<and> likes a = dict_get c ''likes'' (PInt 0)
                \<and> reply_count a = dict_get c ''reply_count'' (PInt 0))
             (comments st) new"
proof -
  from assms obtain r where r: "analyze_loop sia rnd (comments st) (analyzed_comments st) = Inr r"
    using analyze_loop_total by blast
  then obtain new where new: "r = analyzed_comments st @ new"
    and all: "list_all2 (\<lambda>c a. analyze_one sia rnd c = Inr a) (comments st) new"
    using analyze_loop_all2 by blast
  have "author_name a = dict_get c ''author_name'' (PStr [])
        \<and> comment_text a = dict_get c ''comment_text'' (PStr [])
        \<and> likes a = dict_get c ''likes'' (PInt 0)
        \<and> reply_count a = dict_get c ''reply_count'' (PInt 0)"
    if "analyze_one sia rnd c = Inr a" for c a
    using that by (auto elim!: analyze_one_Inr simp: text_of_def)
  with all have "list_all2
      (\<lambda>c a. author_name a = dict_get c ''author_name'' (PStr [])
         \<and> comment_text a = dict_get c ''comment_text'' (PStr [])
         \<and> likes a = dict_get c ''likes'' (PInt 0)
         \<and> reply_count a = dict_get c ''reply_count'' (PInt 0))
      (comments st) new"
    by (rule list_all2_mono) blast
  moreover from all have "length new = length (comments st)"
    by (simp add: list_all2_lengthD)
  moreover from r new have "analyze_comments sia rnd st
      = Inr (st\<lparr>analyzed_comments := analyzed_comments st @ new\<rparr>)"
    by (simp add: analyze_comments_def)
  ultimately show ?thesis by blast
qed

theorem analyze_comments_frame_witness:
  "list_all (\<lambda>c. \<not> isl (example_scorer (text_of c))) example_rows
   \<and> analyze_comments example_scorer example_round \<lparr>comments = example_rows, analyzed_comments = []\<rparr>
       = Inr \<lparr>comments = example_rows, analyzed_comments = example_analyzed\<rparr>
   \<and> map author_name example_analyzed = [PStr ''Ana'', PStr ''Ben'']
   \<and> map comment_text example_analyzed = [PStr ''I love this!'', PStr ''This is terrible.'']
   \<and> map likes example_analyzed = [PStr ''10'', PStr ''2'']
   \<and> map reply_count example_analyzed = [PStr ''0'', PStr ''1'']"
proof -
  have total: "list_all (\<lambda>c. \<not> isl (example_scorer (text_of c)))
      (comments \<lparr>comments = example_rows, analyzed_comments = []\<rparr>)"
    by (simp add: example_rows_def example_scorer_def text_of_def dict_get_def)
  obtain new where run: "analyze_comments example_scorer example_round
        \<lparr>comments = example_rows, analyzed_comments = []\<rparr>
      = Inr (\<lparr>comments = example_rows, analyzed_comments = []\<rparr>
               \<lparr>analyzed_comments := analyzed_comments
                  \<lparr>comments = example_rows, analyzed_comments = []\<rparr> @ new\<rparr>)"
    and fields: "list_all2
      (\<lambda>c a. author_name a = dict_get c ''author_name'' (PStr [])
         \<and> comment_text a = dict_get c ''comment_text'' (PStr [])
         \<and> likes a = dict_get c ''likes'' (PInt 0)
         \<and> reply_count a = dict_get c ''reply_count'' (PInt 0))
      (comments \<lparr>comments = example_rows, analyzed_comments = []\<rparr>) new"
    using analyze_comments_frame [OF total] by blast
  from run have new: "new = example_analyzed"
    by (simp add: example_analysis)
  from fields have "map author_name new = [PStr ''Ana'', PStr ''Ben'']
      \<and> map comment_text new = [PStr ''I love this!'', PStr ''This is terrible.'']
      \<and> map likes new = [PStr ''10'', PStr ''2'']
      \<and> map reply_count new = [PStr ''0'', PStr ''1'']"
    by (auto simp: example_rows_def dict_get_def list_all2_Cons1)
  with total new show ?thesis by (simp add: example_analysis)
qed

subsection \<open>The summary\<close>

lemma tally_loop_Cons:
  assumes "tally_loop f (c # cs) (mc, ml, mr) = Inr t"
  obtains n l r l' r' where "mc (sentiment c) = Some n" and "ml (sentiment c) = Some l"
    and "mr (sentiment c) = Some r"
    and "py_int f (likes c) = Inr l'" and "py_int f (reply_count c) = Inr r'"
    and "tally_loop f cs (mc(sentiment c \<mapsto> n + 1), ml(sentiment c \<mapsto> l + l'),
           mr(sentiment c \<mapsto> r + r')) = Inr t"
  using assms by (auto simp: dict_add_def split: option.splits sum.splits)

text \<open>Each counter ends as its start plus the number of comments with its label.\<close>

lemma tally_loop_counts:
  "tally_loop f cs (mc, ml, mr) = Inr (mc', ml', mr')
     \<Longrightarrow> mc' k = map_option (\<lambda>v. v + int (length (filter (\<lambda>a. sentiment a = k) cs))) (mc k)"
proof (induction cs arbitrary: mc ml mr)
  case Nil
  then show ?case by (simp add: option.map_ident)
next
  case (Cons c cs)
  from Cons.prems obtain n l r l' r' where n: "mc (sentiment c) = Some n"
    and rec: "tally_loop f cs (mc(sentiment c \<mapsto> n + 1), ml(sentiment c \<mapsto> l + l'),
           mr(sentiment c \<mapsto> r + r')) = Inr (mc', ml', mr')"
    by (rule tally_loop_Cons)
  have "mc' k = map_option (\<lambda>v. v + int (length (filter (\<lambda>a. sentiment a = k) cs)))
      ((mc(sentiment c \<mapsto> n + 1)) k)"
    by (rule Cons.IH [OF rec])
  with n show ?case by (cases "mc k") auto
qed

lemma tally_loop_keys:
  "tally_loop f cs (mc, ml, mr) = Inr (mc', ml', mr')
     \<Longrightarrow> has_keys ml \<Longrightarrow> has_keys mr \<Longrightarrow> has_keys ml' \<and> has_keys mr'"
proof (induction cs arbitrary: mc ml mr)
  case Nil
  then show ?case by simp
next
  case (Cons c cs)
  from Cons.prems(1) obtain n l r l' r' where
    rec: "tally_loop f cs (mc(sentiment c \<mapsto> n + 1), ml(sentiment c \<mapsto> l + l'),
           mr(sentiment c \<mapsto> r + r')) = Inr (mc', ml', mr')"
    by (rule tally_loop_Cons)
  from Cons.prems(2) have "has_keys (ml(sentiment c \<mapsto> l + l'))"
    by (simp add: has_keys_def)
  moreover from Cons.prems(3) have "has_keys (mr(sentiment c \<mapsto> r + r'))"
    by (simp add: has_keys_def)
  ultimately show ?case by (rule Cons.IH [OF rec])
qed

lemma has_keys_lookup:
  assumes "has_keys d" and "s = ''Positive'' \<or> s = ''Negative'' \<or> s = ''Neutral''"
  obtains n where "d s = Some n"
  using assms by (auto simp: has_keys_def)

lemma tally_loop_succeeds:
  "list_all (scored_ok f) cs \<Longrightarrow> has_keys mc \<Longrightarrow> has_keys ml \<Longrightarrow> has_keys mr
     \<Longrightarrow> \<exists>t. tally_loop f cs (mc, ml, mr) = Inr t"
proof (induction cs arbitrary: mc ml mr)
  case Nil
  show ?case by simp
next
  case (Cons c cs)
  from Cons.prems(1) have c: "scored_ok f c" and cs: "list_all (scored_ok f) cs"
    by simp_all
  from c have lab: "sentiment c = ''Positive'' \<or> sentiment c = ''Negative''
      \<or> sentiment c = ''Neutral''"
    by (simp add: scored_ok_def)
  obtain n where n: "mc (sentiment c) = Some n"
    using Cons.prems(2) lab by (rule has_keys_lookup)
  obtain l where l: "ml (sentiment c) = Some l"
    using Cons.prems(3) lab by (rule has_keys_lookup)
  obtain r where r: "mr (sentiment c) = Some r"
    using Cons.prems(4) lab by (rule has_keys_lookup)
  from c obtain l' where l': "py_int f (likes c) = Inr l'"
    by (cases "py_int f (likes c)") (auto simp: scored_ok_def)
  from c obtain r' where r': "py_int f (reply_count c) = Inr r'"
    by (cases "py_int f (reply_count c)") (auto simp: scored_ok_def)
  have "has_keys (mc(sentiment c \<mapsto> n + 1))"
    and "has_keys (ml(sentiment c \<mapsto> l + l'))"
    and "has_keys (mr(sentiment c \<mapsto> r + r'))"
    using Cons.prems(2,3,4) by (simp_all add: has_keys_def)
  then obtain t where "tally_loop f cs (mc(sentiment c \<mapsto> n + 1), ml(sentiment c \<mapsto> l + l'),
      mr(sentiment c \<mapsto> r + r')) = Inr t"
    using Cons.IH [OF cs] by blast
  with n l r l' r' have "tally_loop f (c # cs) (mc, ml, mr) = Inr t"
    by (simp add: dict_add_def)
  then show ?case by blast
qed

lemma sum_ints_succeeds:
  "list_all (\<lambda>v. \<not> isl (py_int f v)) vs \<Longrightarrow> \<exists>n. sum_ints f vs = Inr n"
proof (induction vs)
  case Nil
  show ?case by simp
next
  case (Cons v vs)
  then obtain i n where "py_int f v = Inr i" and "sum_ints f vs = Inr n"
    by (cases "py_int f v") auto
  then show ?case by simp
qed

lemma scored_ok_ints:
  assumes "list_all (scored_ok f) cs"
  shows "list_all (\<lambda>v. \<not> isl (py_int f v)) (map likes cs)"
    and "list_all (\<lambda>v. \<not> isl (py_int f v)) (map reply_count cs)"
  using assms by (induction cs) (simp_all add: scored_ok_def)

text \<open>Every scored comment has exactly one of the three labels.\<close>

lemma labels_partition:
  "list_all (scored_ok f) cs
     \<Longrightarrow> length (filter (\<lambda>a. sentiment a = ''Positive'') cs)
       + length (filter (\<lambda>a. sentiment a = ''Negative'') cs)
       + length (filter (\<lambda>a. sentiment a = ''Neutral'') cs) = length cs"
proof (induction cs)
  case Nil
  show ?case by simp
next
  case (Cons c cs)
  from Cons.prems have c: "scored_ok f c" and cs: "list_all (scored_ok f) cs"
    by simp_all
  from c have "sentiment c = ''Positive'' \<or> sentiment c = ''Negative''
      \<or> sentiment c = ''Neutral''"
    by (simp add: scored_ok_def)
  with Cons.IH [OF cs] show ?case by auto
qed

lemma category_line_ok:
  assumes "mc k = Some n" and "ml k = Some l" and "mr k = Some r" and "n_total > 0"
  shows "category_line (mc, ml, mr) n_total k
       = Inr \<lparr>label = k, count = n,
              percentage = of_int n / of_int n_total * 100,
              avg_likes = (if n > 0 then of_int l / of_int n else 0),
              avg_replies = (if n > 0 then of_int r / of_int n else 0)\<rparr>"
  using assms by (simp add: category_line_def py_truediv_def)

text \<open>The labels that the analysis stage gives are the three sentiments.\<close>

lemma classify_sentiment_label:
  "classify_sentiment x = ''Positive'' \<or> classify_sentiment x = ''Negative''
     \<or> classify_sentiment x = ''Neutral''"
  by (simp add: classify_sentiment_def)

text \<open>
  C5. For every non-empty scored set (each label one of the three sentiments, likes and
  reply counts that \<^verbatim>\<open>int\<close> accepts), the summary is produced without an exception;
  the count of each category is the number of comments with that label; the three
  counts add up to the total; each percentage is the count over the total times 100;
  and the three percentages add up to 100 (within 0.1).
\<close>

theorem print_summary_partition:
  assumes "analyzed_comments st \<noteq> []"
    and "list_all (scored_ok int_str) (analyzed_comments st)"
  shows "\<exists>s. analyzer_print_summary int_str st = Inr (Some s)
         \<and> total_comments s = int (length (analyzed_comments st))
         \<and> map label (distribution s) = [''Positive'', ''Negative'', ''Neutral'']
         \<and> map count (distribution s)
             = map (\<lambda>k. int (length (filter (\<lambda>a. sentiment a = k) (analyzed_comments st))))
                 [''Positive'', ''Negative'', ''Neutral'']
         \<and> sum_list (map count (distribution s)) = total_comments s
         \<and> map percentage (distribution s)
             = map (\<lambda>r. of_int (count r) / of_int (total_comments s) * 100) (distribution s)
         \<and> \<bar>sum_list (map percentage (distribution s)) - 100\<bar> \<le> 0.1"
proof -
  let ?cs = "analyzed_comments st"
  let ?n = "int (length ?cs)"
  let ?c = "\<lambda>k. int (length (filter (\<lambda>a. sentiment a = k) ?cs))"
  have init: "has_keys (fst initial_tallies)" "has_keys (fst (snd initial_tallies))"
    "has_keys (snd (snd initial_tallies))"
    by (simp_all add: initial_tallies_def has_keys_def)
  obtain mc ml mr where t: "tally_loop int_str ?cs initial_tallies = Inr (mc, ml, mr)"
    using tally_loop_succeeds [OF assms(2) init] by (metis prod.collapse)
  have t': "tally_loop int_str ?cs
      (fst initial_tallies, fst (snd initial_tallies), snd (snd initial_tallies))
      = Inr (mc, ml, mr)"
    using t by simp
  have counts: "mc k = map_option (\<lambda>v. v + ?c k) (fst initial_tallies k)" for k
    by (rule tally_loop_counts [OF t'])
  have mc: "mc ''Positive'' = Some (?c ''Positive'')" "mc ''Negative'' = Some (?c ''Negative'')"
    "mc ''Neutral'' = Some (?c ''Neutral'')"
    by (simp_all add: counts initial_tallies_def)
  have keys: "has_keys ml \<and> has_keys mr"
    by (rule tally_loop_keys [OF t' init(2,3)])
  then obtain lp ln lu rp rn ru where
    ml: "ml ''Positive'' = Some lp" "ml ''Negative'' = Some ln" "ml ''Neutral'' = Some lu"
    and mr: "mr ''Positive'' = Some rp" "mr ''Negative'' = Some rn" "mr ''Neutral'' = Some ru"
    by (auto simp: has_keys_def)
  obtain sl where sl: "sum_ints int_str (map likes ?cs) = Inr sl"
    using sum_ints_succeeds [OF scored_ok_ints(1) [OF assms(2)]] by blast
  obtain sr where sr: "sum_ints int_str (map reply_count ?cs) = Inr sr"
    using sum_ints_succeeds [OF scored_ok_ints(2) [OF assms(2)]] by blast
  from assms(1) have pos: "?n > 0" by simp
  then have div: "py_truediv (sum_list (map compound_score ?cs)) (of_int ?n)
      = Inr (sum_list (map compound_score ?cs) / of_int ?n)"
    by (simp add: py_truediv_def)
  let ?row = "\<lambda>k l r. \<lparr>label = k, count = ?c k,
      percentage = of_int (?c k) / of_int ?n * 100,
      avg_likes = (if ?c k > 0 then of_int l / of_int (?c k) else 0),
      avg_replies = (if ?c k > 0 then of_int r / of_int (?c k) else 0)\<rparr>"
  let ?lines = "[?row ''Positive'' lp rp, ?row ''Negative'' ln rn, ?row ''Neutral'' lu ru]"
  have lines: "category_lines (mc, ml, mr) ?n [''Positive'', ''Negative'', ''Neutral'']
      = Inr ?lines"
    by (simp add:
          category_line_ok [where mc = mc and ml = ml and mr = mr and k = "''Positive''",
            OF mc(1) ml(1) mr(1) pos]
          category_line_ok [where mc = mc and ml = ml and mr = mr and k = "''Negative''",
            OF mc(2) ml(2) mr(2) pos]
          category_line_ok [where mc = mc and ml = ml and mr = mr and k = "''Neutral''",
            OF mc(3) ml(3) mr(3) pos])
  let ?s = "\<lparr>total_comments = ?n, total_likes = sl, total_replies = sr,
      avg_compound = sum_list (map compound_score ?cs) / of_int ?n,
      distribution = ?lines\<rparr>"
  have run: "analyzer_print_summary int_str st = Inr (Some ?s)"
    unfolding analyzer_print_summary_def
    by (simp only: assms(1) if_False t sl sr div lines sum.case)
  have part: "?c ''Positive'' + ?c ''Negative'' + ?c ''Neutral'' = ?n"
    using labels_partition [OF assms(2)] by linarith
  have "real_of_int (?c ''Positive'') / of_int ?n * 100
      + real_of_int (?c ''Negative'') / of_int ?n * 100
      + real_of_int (?c ''Neutral'') / of_int ?n * 100
      = real_of_int (?c ''Positive'' + ?c ''Negative'' + ?c ''Neutral'') / of_int ?n * 100"
    by (simp only: of_int_add add_divide_distrib distrib_right)
  also have "\<dots> = real_of_int ?n / of_int ?n * 100"
    by (simp only: part)
  also have "\<dots> = 100"
    using pos by simp
  finally have pct: "real_of_int (?c ''Positive'') / of_int ?n * 100
      + real_of_int (?c ''Negative'') / of_int ?n * 100
      + real_of_int (?c ''Neutral'') / of_int ?n * 100 = 100" .
  have s1: "total_comments ?s = ?n"
    by simp
  have s2: "map label (distribution ?s) = [''Positive'', ''Negative'', ''Neutral'']"
    by simp
  have s3: "map count (distribution ?s) = map ?c [''Positive'', ''Negative'', ''Neutral'']"
    by simp
  have "sum_list (map count (distribution ?s))
      = ?c ''Positive'' + ?c ''Negative'' + ?c ''Neutral''"
    by simp
  with part have s4: "sum_list (map count (distribution ?s)) = total_comments ?s"
    by (simp only: s1)
  have s5: "map percentage (distribution ?s)
      = map (\<lambda>r. of_int (count r) / of_int (total_comments ?s) * 100) (distribution ?s)"
    by simp
  have "sum_list (map percentage (distribution ?s))
      = real_of_int (?c ''Positive'') / of_int ?n * 100
      + real_of_int (?c ''Negative'') / of_int ?n * 100
      + real_of_int (?c ''Neutral'') / of_int ?n * 100"
    by simp
  with pct have "sum_list (map percentage (distribution ?s)) = 100"
    by (simp only:)
  then have s6: "\<bar>sum_list (map percentage (distribution ?s)) - 100\<bar> \<le> 0.1"
    by (simp only: diff_self abs_zero)
  show ?thesis
    by (rule exI [where x = ?s]) (intro conjI run s1 s2 s3 s4 s5 s6)
qed

lemma example_scored_ok: "list_all (scored_ok example_int_str) example_analyzed"
  by (simp add: scored_ok_def example_analyzed_def example_int_str_def)

lemma example_summary:
  "analyzer_print_summary example_int_str
     \<lparr>comments = example_rows, analyzed_comments = example_analyzed\<rparr>
   = Inr (Some \<lparr>total_comments = 2, total_likes = 12, total_replies = 1,
                avg_compound = 0.09645,
                distribution =
                  [\<lparr>label = ''Positive'', count = 1, percentage = 50,
                    avg_likes = 10, avg_replies = 0\<rparr>,
                   \<lparr>label = ''Negative'', count = 1, percentage = 50,
                    avg_likes = 2, avg_replies = 1\<rparr>,
                   \<lparr>label = ''Neutral'', count = 0, percentage = 0,
                    avg_likes = 0, avg_replies = 0\<rparr>]\<rparr>)"
  by (simp add: analyzer_print_summary_def example_analyzed_def initial_tallies_def
        dict_add_def example_int_str_def category_line_def py_truediv_def)

theorem print_summary_partition_witness:
  "analyzed_comments \<lparr>comments = example_rows, analyzed_comments = example_analyzed\<rparr> \<noteq> []
   \<and> list_all (scored_ok example_int_str)
        (analyzed_comments \<lparr>comments = example_rows, analyzed_comments = example_analyzed\<rparr>)
   \<and> (\<exists>s. analyzer_print_summary example_int_str
              \<lparr>comments = example_rows, analyzed_comments = example_analyzed\<rparr> = Inr (Some s)
          \<and> total_comments s = 2
          \<and> map count (distribution s) = [1, 1, 0]
          \<and> sum_list (map count (distribution s)) = total_comments s
          \<and> map percentage (distribution s) = [50, 50, 0]
          \<and> \<bar>sum_list (map percentage (distribution s)) - 100\<bar> \<le> 0.1)"
proof -
  let ?st = "\<lparr>comments = example_rows, analyzed_comments = example_analyzed\<rparr>"
  have ne: "analyzed_comments ?st \<noteq> []"
    by (simp add: example_analyzed_def)
  have ok: "list_all (scored_ok example_int_str) (analyzed_comments ?st)"
    by (simp add: example_scored_ok)
  obtain s :: summary
    where run: "analyzer_print_summary example_int_str ?st = Inr (Some s)"
    and total: "sum_list (map count (distribution s)) = total_comments s"
    and pct: "\<bar>sum_list (map percentage (distribution s)) - 100\<bar> \<le> 0.1"
    using print_summary_partition [OF ne ok] by blast
  from run have s: "s = \<lparr>total_comments = 2, total_likes = 12, total_replies = 1,
      avg_compound = 0.09645,
      distribution =
        [\<lparr>label = ''Positive'', count = 1, percentage = 50, avg_likes = 10, avg_replies = 0\<rparr>,
         \<lparr>label = ''Negative'', count = 1, percentage = 50, avg_likes = 2, avg_replies = 1\<rparr>,
         \<lparr>label = ''Neutral'', count = 0, percentage = 0, avg_likes = 0, avg_replies = 0\<rparr>]\<rparr>"
    by (simp add: example_summary)
  have "total_comments s = 2" and "map count (distribution s) = [1, 1, 0]"
    and "map percentage (distribution s) = [50, 50, 0]"
    by (simp_all add: s)
  with run total pct have "analyzer_print_summary example_int_str ?st = Inr (Some s)
      \<and> total_comments s = 2
      \<and> map count (distribution s) = [1, 1, 0]
      \<and> sum_list (map count (distribution s)) = total_comments s
      \<and> map percentage (distribution s) = [50, 50, 0]
      \<and> \<bar>sum_list (map percentage (distribution s)) - 100\<bar> \<le> 0.1"
    by (intro conjI)
  then have "\<exists>s. analyzer_print_summary example_int_str ?st = Inr (Some s)
      \<and> total_comments s = 2
      \<and> map count (distribution s) = [1, 1, 0]
      \<and> sum_list (map count (distribution s)) = total_comments s
      \<and> map percentage (distribution s) = [50, 50, 0]
      \<and> \<bar>sum_list (map percentage (distribution s)) - 100\<bar> \<le> 0.1"
    by (rule exI)
  with ne ok show ?thesis by (intro conjI)
qed

text \<open>
  C6 (as amended). Summarizing an empty scored set produces no summary: the method logs
  that there are no comments to summarize and returns. It computes no count and no
  average, and it raises no exception, a division error included.
\<close>

theorem print_summary_empty:
  assumes "analyzed_comments st = []"
  shows "analyzer_print_summary int_str st = Inr None"
  using assms by (simp add: analyzer_print_summary_def)

theorem print_summary_empty_witness:
  "analyzed_comments \<lparr>comments = example_rows, analyzed_comments = []\<rparr> = []
   \<and> analyzer_print_summary example_int_str \<lparr>comments = example_rows, analyzed_comments = []\<rparr>
       = Inr None"
  using print_summary_empty [of "\<lparr>comments = example_rows, analyzed_comments = []\<rparr>" example_int_str]
  by simp

text \<open>
  C6 as stated fails: for the empty scored set the method returns before it builds
  anything, so there is no summary with counts of zero and averages marked as undefined.
\<close>

theorem print_summary_empty_counterexample:
  "\<not> (\<exists>s. analyzer_print_summary example_int_str \<lparr>comments = [], analyzed_comments = []\<rparr>
          = Inr (Some s))"
  by (simp add: analyzer_print_summary_def)

subsection \<open>The run and the store\<close>

text \<open>
  C8. If reading the input file raises at the start of stage 2 (the file is absent or
  unreadable), the run returns at once: the analyzer state is as before, so nothing was
  scored, the world is as before, so no file was written, and no summary was logged.
\<close>

theorem analyzer_run_input_missing:
  assumes "store_read INPUT_CSV w = Inl e"
  shows "analyzer_run store_read store_write sia rnd int_str w st = Inr (st, w, None)"
  using assms by (simp add: analyzer_run_def load_comments_def)

theorem analyzer_run_input_missing_witness:
  "example_read INPUT_CSV [] = Inl FileNotFoundError
   \<and> analyzer_run example_read example_write example_scorer example_round example_int_str []
        \<lparr>comments = [], analyzed_comments = []\<rparr>
       = Inr (\<lparr>comments = [], analyzed_comments = []\<rparr>, [], None)"
proof -
  have missing: "example_read INPUT_CSV [] = Inl FileNotFoundError"
    by (simp add: example_read_def)
  from analyzer_run_input_missing [where store_read = example_read and w = "[]", OF missing]
    missing
  show ?thesis by simp
qed

text \<open>With the input file in place the same run scores the rows and writes its output.\<close>

lemma example_run_complete:
  "\<exists>sm. analyzer_run example_read example_write example_scorer example_round example_int_str [INPUT_CSV]
          \<lparr>comments = [], analyzed_comments = []\<rparr>
        = Inr (\<lparr>comments = example_rows, analyzed_comments = example_analyzed\<rparr>,
               [SENTIMENT_OUTPUT_CSV, INPUT_CSV], Some sm)"
proof -
  have "example_analyzed \<noteq> []"
    by (simp add: example_analyzed_def)
  then show ?thesis
    by (simp add: analyzer_run_def load_comments_def example_read_def example_analysis
          analyzer_export_to_csv_def example_write_def example_summary)
qed

text \<open>
  C9. In both stages \<^verbatim>\<open>export_to_csv\<close> raises exactly when there is something to
  write and writing it raises, and then it raises that very exception: a failed write is
  never swallowed. (With nothing to write the method returns before it opens the file.)
\<close>

theorem export_to_csv_propagates:
  "(scraper_export_to_csv store_write w cs file = Inl e
      \<longleftrightarrow> cs \<noteq> []
        \<and> store_write file [''author_name'', ''likes'', ''reply_count'', ''comment_text''] cs w
            = Inl e)
   \<and> (analyzer_export_to_csv store_write' w' st file' = Inl e'
      \<longleftrightarrow> analyzed_comments st \<noteq> []
        \<and> store_write' file'
             [''author_name'', ''sentiment'', ''compound_score'', ''positive_score'',
              ''negative_score'', ''neutral_score'', ''likes'', ''reply_count'',
              ''comment_text'']
             (analyzed_comments st) w' = Inl e')"
  by (auto simp: scraper_export_to_csv_def analyzer_export_to_csv_def split: sum.splits)

text \<open>The exception of a failed write leaves \<^verbatim>\<open>SentimentAnalyzer.run\<close> as well.\<close>

lemma analyzer_run_write_failure:
  assumes "load_comments store_read w st INPUT_CSV = (True, st1)"
    and "analyze_comments sia rnd st1 = Inr st2"
    and "analyzer_export_to_csv store_write w st2 SENTIMENT_OUTPUT_CSV = Inl e"
  shows "analyzer_run store_read store_write sia rnd int_str w st = Inl e"
  using assms by (simp add: analyzer_run_def)

end
